theory Spec2Isabelle
  imports Complex_Main "HOL-Library.Char_ord" "HOL-Library.List_Lexorder"
    "HOL-Library.Log_Nat" "HOL-Library.Code_Target_Numeral"
begin

section \<open>Attacker personas: a shallow embedding of the Python sources\<close>

text \<open>
  Conventions of the embedding.

  \<^item> A Python dictionary read from the STIX bundle is a record whose fields are the keys
    the code reads. A key that may be missing is an \<open>option\<close> field (\<open>None\<close>: the key is
    absent); a list-valued key that the code only ever reads as \<open>d.get(k, [])\<close> is a
    plain list (absent: \<open>[]\<close>). Values that are present have the JSON type STIX gives
    them (strings, lists of objects).
  \<^item> The key \<open>external_id\<close> is written by the client itself with the value
    \<open>ref.get('external_id')\<close>, which is Python's \<open>None\<close> when the reference has no such key.
    The field is therefore \<open>string option option\<close>: \<open>None\<close> is "key absent", \<open>Some None\<close> is
    "key present, value None", \<open>Some (Some s)\<close> is "key present, value the string s".
  \<^item> A Python float is the real number it denotes. Where a float is turned into an
    integer (the risk score, the delay of a phase) the arithmetic that leads to it is
    IEEE double arithmetic: every operation rounds its exact result to the nearest double
    (\<open>to_double\<close>). The outcome probabilities, which are only compared, are computed
    over the reals.
  \<^item> The module-level random generator is an explicit, infinite sequence of raw draws that
    is threaded through every function that calls \<open>random\<close>; each call consumes one draw.
  \<^item> An exception is a value \<open>Inl e\<close> of a sum type.
\<close>

subsection \<open>Python values, errors, randomness, strings\<close>

datatype error = ValueError | TypeError | KeyError

type_synonym rng = "nat \<Rightarrow> nat"

definition next_draw :: "rng \<Rightarrow> nat \<times> rng" where
  "next_draw g = (g 0, \<lambda>n. g (Suc n))"

text \<open>\<open>random.random()\<close>: a double in [0,1) with 53 bits of resolution.\<close>

definition random_random :: "rng \<Rightarrow> real \<times> rng" where
  "random_random g = (case next_draw g of (d, g') \<Rightarrow> (real (d mod 2 ^ 53) / 2 ^ 53, g'))"

text \<open>\<open>random.randint(a, b)\<close> with \<open>a \<le> b\<close>: an integer of the closed interval.\<close>

definition random_randint :: "int \<Rightarrow> int \<Rightarrow> rng \<Rightarrow> int \<times> rng" where
  "random_randint a b g = (case next_draw g of (d, g') \<Rightarrow> (a + int d mod (b - a + 1), g'))"

text \<open>
  IEEE doubles. A finite double is \<open>m * 2 ^ e\<close> with an integer \<open>m\<close> of at most 53 bits.
  \<open>to_double x\<close> is the double nearest to \<open>x\<close>, a tie going to the even \<open>m\<close>: the result
  of every correctly rounded operation whose exact result is \<open>x\<close> (Python's \<open>+\<close>, \<open>-\<close>,
  \<open>*\<close> on floats, \<open>/\<close> on integers, and a decimal literal). The exponent range is not
  modelled: \<open>to_double\<close> is the double for \<open>2 ^ -1022 \<le> \<bar>x\<bar> < 2 ^ 1024\<close> and for
  \<open>x = 0\<close>, which covers every quotient of two list lengths below \<open>2 ^ 1000\<close>.
\<close>

definition round_half_even :: "real \<Rightarrow> int" where
  "round_half_even x =
     (let f = \<lfloor>x\<rfloor>; d = x - of_int f
      in if d < 1 / 2 then f else if 1 / 2 < d then f + 1 else if even f then f else f + 1)"

text \<open>For \<open>x > 0\<close>: the integer \<open>e\<close> with \<open>2 ^ e \<le> x < 2 ^ (e + 1)\<close>.\<close>

definition float_exponent :: "real \<Rightarrow> int" where
  "float_exponent x =
     (if 1 \<le> x then bitlen \<lfloor>x\<rfloor> - 1
      else (let k = bitlen \<lfloor>1 / x\<rfloor> - 1
            in if x * 2 powi k = 1 then - k else - k - 1))"

definition to_double :: "real \<Rightarrow> real" where
  "to_double x =
     (if x = 0 then 0
      else (let ulp = 2 powi (float_exponent \<bar>x\<bar> - 52)
            in of_int (round_half_even (x / ulp)) * ulp))"

text \<open>
  \<open>random.uniform(a, b)\<close> is \<open>a + (b - a) * random()\<close>, on doubles \<open>a\<close> and \<open>b\<close>.
\<close>

definition random_uniform :: "real \<Rightarrow> real \<Rightarrow> rng \<Rightarrow> real \<times> rng" where
  "random_uniform a b g =
     (case random_random g of (u, g') \<Rightarrow> (to_double (a + to_double (to_double (b - a) * u)), g'))"

text \<open>
  \<open>random.choice(seq)\<close>. It raises on an empty sequence; every call in the modelled code
  passes a sequence that is known to be non-empty, so the model takes the sequence as
  its first element and the rest.
\<close>

definition random_choice :: "'a \<Rightarrow> 'a list \<Rightarrow> rng \<Rightarrow> 'a \<times> rng" where
  "random_choice x xs g = (case next_draw g of (d, g') \<Rightarrow> ((x # xs) ! (d mod length (x # xs)), g'))"

text \<open>\<open>int(x)\<close> on a float truncates towards zero.\<close>

definition py_int :: "real \<Rightarrow> int" where
  "py_int x = (if 0 \<le> x then \<lfloor>x\<rfloor> else \<lceil>x\<rceil>)"

text \<open>\<open>needle in haystack\<close> on strings: contiguous substring.\<close>

fun py_in_str :: "string \<Rightarrow> string \<Rightarrow> bool" where
  "py_in_str needle [] = (needle = [])"
| "py_in_str needle (c # cs) = (take (length needle) (c # cs) = needle \<or> py_in_str needle cs)"

subsection \<open>STIX objects\<close>

record external_reference =
  source_name :: "string option"
  ref_external_id :: "string option"

record kill_chain_phase =
  kill_chain_name :: "string option"
  phase_name :: "string option"

record stix_object =
  obj_type :: "string option"
  obj_id :: "string option"
  obj_name :: "string option"
  obj_aliases :: "string list"
  obj_description :: "string option"
  external_references :: "external_reference list"
  kill_chain_phases :: "kill_chain_phase list"
  source_ref :: "string option"
  target_ref :: "string option"
  relationship_type :: "string option"
  external_id :: "string option option"

text \<open>\<open>d.get('external_id')\<close>: Python's \<open>None\<close> both for a missing key and for a stored \<open>None\<close>.\<close>

definition get_external_id :: "stix_object \<Rightarrow> string option" where
  "get_external_id d = (case external_id d of None \<Rightarrow> None | Some v \<Rightarrow> v)"

text \<open>\<open>d.get('external_id', '')\<close>: the default only replaces a missing key.\<close>

definition get_external_id_default :: "stix_object \<Rightarrow> string option" where
  "get_external_id_default d = (case external_id d of None \<Rightarrow> Some [] | Some v \<Rightarrow> v)"

definition get_name_default :: "stix_object \<Rightarrow> string" where
  "get_name_default d = (case obj_name d of None \<Rightarrow> [] | Some s \<Rightarrow> s)"

definition get_description_default :: "stix_object \<Rightarrow> string" where
  "get_description_default d = (case obj_description d of None \<Rightarrow> [] | Some s \<Rightarrow> s)"

subsection \<open>persona.py: the persona and its derived operations\<close>

datatype SophisticationLevel = LOW | MEDIUM | HIGH | ADVANCED

datatype StealthLevel = NOISY | BALANCED | STEALTHY

datatype AttackSpeed = SLOW | MODERATE | FAST | AGGRESSIVE

record AttackerPersona =
  stix_id :: string
  mitre_id :: string
  name :: string
  aliases :: "string list"
  description :: string
  tactics :: "string list"
  techniques :: "stix_object list"
  software :: "stix_object list"
  sophistication_level :: SophisticationLevel
  stealth_preference :: StealthLevel
  attack_speed :: AttackSpeed
  target_industries :: "string list"
  target_regions :: "string list"
  motivations :: "string list"
  preferred_initial_access :: "string option list"
  preferred_persistence :: "string option list"
  preferred_privilege_escalation :: "string option list"
  preferred_defense_evasion :: "string option list"
  preferred_credential_access :: "string option list"
  preferred_discovery :: "string option list"
  preferred_lateral_movement :: "string option list"
  preferred_collection :: "string option list"
  preferred_command_control :: "string option list"
  preferred_exfiltration :: "string option list"
  preferred_impact :: "string option list"
  preferred_tools :: "string list"
  max_techniques_per_phase :: int
  technique_success_rate :: real
  detection_sensitivity :: real
  persistence_priority :: real
  data_exfiltration_priority :: real

text \<open>
  \<open>select_technique_for_tactic\<close>, lines 199--208: the inner loop over the kill-chain phases
  of one technique. At the first phase of the chain \<open>mitre-attack\<close> with the wanted name
  the technique is appended unless its id is excluded, and the loop breaks either way.
\<close>

fun phase_loop ::
  "kill_chain_phase list \<Rightarrow> string \<Rightarrow> string option list \<Rightarrow> stix_object \<Rightarrow>
   stix_object list \<Rightarrow> stix_object list" where
  "phase_loop [] tac exclude tech matching = matching"
| "phase_loop (phase # rest) tac exclude tech matching =
     (if kill_chain_name phase = Some ''mitre-attack'' \<and> phase_name phase = Some tac
      then (if get_external_id tech \<notin> set exclude then matching @ [tech] else matching)
      else phase_loop rest tac exclude tech matching)"

fun matching_loop ::
  "stix_object list \<Rightarrow> string \<Rightarrow> string option list \<Rightarrow> stix_object list \<Rightarrow> stix_object list" where
  "matching_loop [] tac exclude matching = matching"
| "matching_loop (tech # rest) tac exclude matching =
     matching_loop rest tac exclude (phase_loop (kill_chain_phases tech) tac exclude tech matching)"

text \<open>
  The exclude list holds technique ids as the caller read them from a phase, so an entry
  may be Python's \<open>None\<close>. \<open>exclude or []\<close> turns a missing argument into the empty list.
\<close>

definition select_technique_for_tactic ::
  "AttackerPersona \<Rightarrow> string \<Rightarrow> string option list option \<Rightarrow> rng \<Rightarrow> stix_object option \<times> rng" where
  "select_technique_for_tactic self tac exclude g =
     (let exclude' = (case exclude of None \<Rightarrow> [] | Some e \<Rightarrow> e);
          matching = matching_loop (techniques self) tac exclude' []
      in case matching of
           [] \<Rightarrow> (None, g)
         | m # ms \<Rightarrow>
             if sophistication_level self = ADVANCED
             then (case random_choice m ms g of (t, g') \<Rightarrow> (Some t, g'))
             else (Some m, g))"

record chain_entry =
  ce_tactic :: string
  ce_technique_id :: "string option"
  ce_technique_name :: string
  ce_description :: string

definition tactic_order :: "AttackerPersona \<Rightarrow> string \<Rightarrow> string list" where
  "tactic_order self scenario =
     (if scenario = ''full_chain'' then
        [''reconnaissance'', ''initial-access'', ''execution'', ''persistence'',
         ''privilege-escalation'', ''defense-evasion'', ''credential-access'', ''discovery'',
         ''lateral-movement'', ''collection'', ''command-and-control'', ''exfiltration'',
         ''impact'']
      else if scenario = ''ransomware'' then
        [''initial-access'', ''execution'', ''privilege-escalation'', ''defense-evasion'',
         ''discovery'', ''lateral-movement'', ''impact'']
      else if scenario = ''data_theft'' then
        [''initial-access'', ''execution'', ''persistence'', ''credential-access'',
         ''discovery'', ''collection'', ''exfiltration'']
      else tactics self)"

text \<open>
  The loop of \<open>get_attack_chain\<close>, lines 278--289. \<open>if technique:\<close> tests a dictionary
  for being non-empty; a selected technique has a kill-chain phase, so it is non-empty.
\<close>

fun chain_loop ::
  "AttackerPersona \<Rightarrow> string list \<Rightarrow> chain_entry list \<Rightarrow> rng \<Rightarrow> chain_entry list \<times> rng" where
  "chain_loop self [] chain g = (chain, g)"
| "chain_loop self (tac # rest) chain g =
     (if tac \<notin> set (tactics self) then chain_loop self rest chain g
      else case select_technique_for_tactic self tac None g of
             (None, g') \<Rightarrow> chain_loop self rest chain g'
           | (Some technique, g') \<Rightarrow>
               chain_loop self rest
                 (chain @ [\<lparr>ce_tactic = tac,
                            ce_technique_id = get_external_id_default technique,
                            ce_technique_name = get_name_default technique,
                            ce_description = take 200 (get_description_default technique) @ ''...''\<rparr>])
                 g')"

definition get_attack_chain :: "AttackerPersona \<Rightarrow> string \<Rightarrow> rng \<Rightarrow> chain_entry list \<times> rng" where
  "get_attack_chain self scenario g = chain_loop self (tactic_order self scenario) [] g"

subsection \<open>mitre_stix_client.py: the knowledge-graph store\<close>

text \<open>
  The client's three indexes. The download and the cache file are outside the model: the
  store is a function of the list \<open>stix_data['objects']\<close>.
\<close>

record MITREStixClient =
  objects_by_type :: "string option \<rightharpoonup> stix_object list"
  objects_by_id :: "string \<rightharpoonup> stix_object"
  relationships :: "stix_object list"

text \<open>
  One round of the loop of \<open>_parse_stix_data\<close>, lines 145--160. An object is indexed by
  id only when its id is truthy (present and not the empty string); a later object with
  the same id replaces an earlier one.
\<close>

definition index_object :: "stix_object \<Rightarrow> MITREStixClient \<Rightarrow> MITREStixClient" where
  "index_object obj self =
     (let bucket = (case objects_by_type self (obj_type obj) of None \<Rightarrow> [] | Some os \<Rightarrow> os);
          s1 = self\<lparr>objects_by_type := (objects_by_type self)(obj_type obj \<mapsto> bucket @ [obj])\<rparr>;
          s2 = (case obj_id obj of
                  None \<Rightarrow> s1
                | Some i \<Rightarrow> if i = [] then s1 else s1\<lparr>objects_by_id := (objects_by_id s1)(i \<mapsto> obj)\<rparr>)
      in if obj_type obj = Some ''relationship''
         then s2\<lparr>relationships := relationships s2 @ [obj]\<rparr>
         else s2)"

fun parse_loop :: "stix_object list \<Rightarrow> MITREStixClient \<Rightarrow> MITREStixClient" where
  "parse_loop [] self = self"
| "parse_loop (obj # rest) self = parse_loop rest (index_object obj self)"

definition parse_stix_data :: "stix_object list \<Rightarrow> MITREStixClient" where
  "parse_stix_data objects =
     parse_loop objects \<lparr>objects_by_type = Map.empty, objects_by_id = Map.empty, relationships = []\<rparr>"

text \<open>\<open>self._objects_by_id.get(ref)\<close> where \<open>ref\<close> may be Python's \<open>None\<close> (never a key).\<close>

definition lookup_by_id :: "MITREStixClient \<Rightarrow> string option \<Rightarrow> stix_object option" where
  "lookup_by_id self r = (case r of None \<Rightarrow> None | Some i \<Rightarrow> objects_by_id self i)"

text \<open>
  Lines 212--216: the copy of the target gets the key \<open>external_id\<close> from its first
  reference of source \<open>mitre-attack\<close>, with whatever \<open>ref.get('external_id')\<close> returns.
\<close>

fun attach_external_id :: "external_reference list \<Rightarrow> stix_object \<Rightarrow> stix_object" where
  "attach_external_id [] technique = technique"
| "attach_external_id (r # refs) technique =
     (if source_name r = Some ''mitre-attack''
      then technique\<lparr>external_id := Some (ref_external_id r)\<rparr>
      else attach_external_id refs technique)"

text \<open>
  The body of the loop of \<open>get_techniques_for_group\<close>, lines 203--217, for one
  relationship. A target found in the id index is a non-empty dictionary, so
  \<open>if target and ...\<close> only tests that the lookup succeeded.
\<close>

definition techniques_step ::
  "MITREStixClient \<Rightarrow> string \<Rightarrow> stix_object \<Rightarrow> stix_object list \<Rightarrow> stix_object list" where
  "techniques_step self group_id rel techs =
     (if source_ref rel = Some group_id \<and> relationship_type rel = Some ''uses''
      then (case lookup_by_id self (target_ref rel) of
              None \<Rightarrow> techs
            | Some target \<Rightarrow>
                if obj_type target = Some ''attack-pattern''
                then techs @ [attach_external_id (external_references target) target]
                else techs)
      else techs)"

fun techniques_loop ::
  "MITREStixClient \<Rightarrow> string \<Rightarrow> stix_object list \<Rightarrow> stix_object list \<Rightarrow> stix_object list" where
  "techniques_loop self group_id [] techs = techs"
| "techniques_loop self group_id (rel # rest) techs =
     techniques_loop self group_id rest (techniques_step self group_id rel techs)"

definition get_techniques_for_group :: "MITREStixClient \<Rightarrow> string \<Rightarrow> stix_object list" where
  "get_techniques_for_group self group_id = techniques_loop self group_id (relationships self) []"

definition software_step ::
  "MITREStixClient \<Rightarrow> string \<Rightarrow> stix_object \<Rightarrow> stix_object list \<Rightarrow> stix_object list" where
  "software_step self group_id rel softs =
     (if source_ref rel = Some group_id \<and> relationship_type rel = Some ''uses''
      then (case lookup_by_id self (target_ref rel) of
              None \<Rightarrow> softs
            | Some target \<Rightarrow>
                if obj_type target \<in> {Some ''malware'', Some ''tool''}
                then softs @ [attach_external_id (external_references target) target]
                else softs)
      else softs)"

fun software_loop ::
  "MITREStixClient \<Rightarrow> string \<Rightarrow> stix_object list \<Rightarrow> stix_object list \<Rightarrow> stix_object list" where
  "software_loop self group_id [] softs = softs"
| "software_loop self group_id (rel # rest) softs =
     software_loop self group_id rest (software_step self group_id rel softs)"

definition get_software_for_group :: "MITREStixClient \<Rightarrow> string \<Rightarrow> stix_object list" where
  "get_software_for_group self group_id = software_loop self group_id (relationships self) []"

text \<open>
  \<open>str.lower()\<close> on ASCII text (a \<open>char\<close> is a byte; other bytes are left as they are).
\<close>

definition lower_char :: "char \<Rightarrow> char" where
  "lower_char c =
     (case map_of (zip ''ABCDEFGHIJKLMNOPQRSTUVWXYZ'' ''abcdefghijklmnopqrstuvwxyz'') c of
        None \<Rightarrow> c
      | Some l \<Rightarrow> l)"

definition py_lower :: "string \<Rightarrow> string" where
  "py_lower s = map lower_char s"

fun group_loop :: "stix_object list \<Rightarrow> string \<Rightarrow> stix_object option" where
  "group_loop [] nm = None"
| "group_loop (grp # rest) nm =
     (if py_lower (get_name_default grp) = py_lower nm then Some grp
      else if \<exists>alias \<in> set (obj_aliases grp). py_lower alias = py_lower nm then Some grp
      else group_loop rest nm)"

definition get_group_by_name :: "MITREStixClient \<Rightarrow> string \<Rightarrow> stix_object option" where
  "get_group_by_name self nm =
     group_loop (case objects_by_type self (Some ''intrusion-set'') of None \<Rightarrow> [] | Some gs \<Rightarrow> gs) nm"

subsection \<open>persona_generator.py: target industries\<close>

definition load_industry_keywords :: "(string \<times> string list) list" where
  "load_industry_keywords =
     [(''Government'', [''government'', ''military'', ''defense'', ''embassy'', ''diplomatic'', ''ministry'', ''agency'']),
      (''Financial'', [''bank'', ''financial'', ''finance'', ''payment'', ''credit'', ''monetary'', ''treasury'']),
      (''Technology'', [''technology'', ''software'', ''tech'', ''IT'', ''computer'', ''semiconductor'', ''cloud'']),
      (''Healthcare'', [''healthcare'', ''hospital'', ''medical'', ''pharmaceutical'', ''health'', ''patient'']),
      (''Energy'', [''energy'', ''oil'', ''gas'', ''electric'', ''power'', ''utility'', ''petroleum'', ''nuclear'']),
      (''Telecommunications'', [''telecom'', ''telecommunication'', ''mobile'', ''cellular'', ''phone'', ''network'']),
      (''Manufacturing'', [''manufacturing'', ''industrial'', ''factory'', ''production'', ''automotive'']),
      (''Education'', [''education'', ''university'', ''school'', ''academic'', ''research'', ''student'']),
      (''Media'', [''media'', ''journalism'', ''news'', ''broadcast'', ''television'', ''radio'', ''press'']),
      (''Retail'', [''retail'', ''shopping'', ''store'', ''commerce'', ''sales'', ''consumer'']),
      (''Aviation'', [''aviation'', ''airline'', ''aircraft'', ''aerospace'', ''flight'']),
      (''Maritime'', [''maritime'', ''shipping'', ''port'', ''naval'', ''ocean'']),
      (''Critical Infrastructure'', [''infrastructure'', ''critical'', ''transportation'', ''water'', ''dam''])]"

text \<open>\<open>' '.join(aliases)\<close>.\<close>

fun join_space :: "string list \<Rightarrow> string" where
  "join_space [] = []"
| "join_space [a] = a"
| "join_space (a # b # rest) = a @ '' '' @ join_space (b # rest)"

definition combined_text :: "string \<Rightarrow> string list \<Rightarrow> string" where
  "combined_text descr als = py_lower (descr @ '' '' @ join_space als)"

fun industries_loop :: "(string \<times> string list) list \<Rightarrow> string \<Rightarrow> string list \<Rightarrow> string list" where
  "industries_loop [] txt detected = detected"
| "industries_loop ((industry, keywords) # rest) txt detected =
     industries_loop rest txt
       (if \<exists>keyword \<in> set keywords. py_in_str keyword txt then detected @ [industry] else detected)"

definition infer_target_industries :: "string \<Rightarrow> string list \<Rightarrow> string list" where
  "infer_target_industries descr als =
     (let detected_industries = industries_loop load_industry_keywords (combined_text descr als) []
      in if detected_industries \<noteq> [] then detected_industries else [''Technology'', ''Government''])"

subsection \<open>red_team_agent_v2.py: the campaign engine\<close>

datatype AttackStatus = PLANNED | IN_PROGRESS | SUCCESS | FAILED | BLOCKED | ABANDONED

text \<open>A phase of the attack plan: the dictionary built in \<open>_generate_persona_attack_plan\<close>.\<close>

record plan_phase =
  pl_tactic :: string
  pl_technique_id :: "string option"
  pl_technique_name :: string
  pl_description :: string
  expected_delay_minutes :: int
  stealth_mode :: bool
  priority :: int

record artifact =
  art_type :: string
  art_description :: string
  ioc :: string

record detection_event =
  de_phase :: string
  de_technique :: "string option"
  severity :: string

text \<open>
  The result of one executed phase. The keys fed by the clock (\<open>phase_id\<close>, \<open>start_time\<close>,
  \<open>end_time\<close>) and \<open>mitigation_suggestions\<close> (three elements of a Python set, in the
  set's iteration order) are left out: nothing reads them, they draw no random number and
  their computation has no failing branch.
\<close>

record phase_result =
  pr_tactic :: string
  pr_technique_id :: "string option"
  pr_technique_name :: string
  pr_target :: string
  pr_status :: AttackStatus
  detected :: bool
  artifacts :: "artifact list"
  indicators :: "string list"

text \<open>
  An entry of \<open>campaign['phases']\<close>: either \<open>{'phase': phase, 'status': PLANNED}\<close> or the
  result of an executed phase.
\<close>

datatype phase_entry = Planned plan_phase | Executed phase_result

record objectives =
  initial_access :: bool
  persistence :: bool
  data_theft :: bool
  lateral_movement :: bool

text \<open>
  The campaign dictionary, without \<open>id\<close>, \<open>start_time\<close>, \<open>end_time\<close> (clock) and the
  serialised \<open>persona\<close> snapshot (\<open>to_dict\<close> reads the persona's fields and has no
  failing branch). The four metric keys exist only after finalisation.
\<close>

record campaign =
  target :: string
  scenario :: string
  max_duration_hours :: int
  status :: string
  phases :: "phase_entry list"
  techniques_used :: "string option list"
  objectives_completed :: "string list"
  detection_events :: "detection_event list"
  data_exfiltrated :: int
  attack_plan :: "plan_phase list"
  success_rate :: "real option"
  detection_rate :: "real option"
  objectives_achieved :: "objectives option"
  risk_score :: "int option"

record RedTeamAgentWithPersona =
  mitre_client :: MITREStixClient
  persona :: "AttackerPersona option"
  attack_history :: "campaign list"
  current_campaign :: "campaign option"

definition should_use_stealth_technique :: "AttackerPersona \<Rightarrow> rng \<Rightarrow> bool \<times> rng" where
  "should_use_stealth_technique self g =
     (case random_random g of (u, g') \<Rightarrow>
        (case stealth_preference self of
           STEALTHY \<Rightarrow> (u < 0.9, g')
         | BALANCED \<Rightarrow> (u < 0.5, g')
         | NOISY \<Rightarrow> (u < 0.1, g')))"

text \<open>
  \<open>_calculate_phase_delay\<close>: the dictionary literal draws all four delays, in this order,
  before one of them is picked.
\<close>

definition calculate_phase_delay :: "AttackerPersona \<Rightarrow> rng \<Rightarrow> int \<times> rng" where
  "calculate_phase_delay p g =
     (case random_randint 60 240 g of (slow, g1) \<Rightarrow>
      case random_randint 15 60 g1 of (moderate, g2) \<Rightarrow>
      case random_randint 1 15 g2 of (fast, g3) \<Rightarrow>
      case random_randint 0 2 g3 of (aggressive, g4) \<Rightarrow>
        (let delay = (case attack_speed p of
                        SLOW \<Rightarrow> slow | MODERATE \<Rightarrow> moderate | FAST \<Rightarrow> fast | AGGRESSIVE \<Rightarrow> aggressive)
         in if stealth_preference p = STEALTHY
            then (case random_uniform 1.5 2.5 g4 of
                    (u, g5) \<Rightarrow> (py_int (to_double (real_of_int delay * u)), g5))
            else (delay, g4)))"

definition calculate_success_probability :: "AttackerPersona \<Rightarrow> plan_phase \<Rightarrow> real" where
  "calculate_success_probability p phase =
     (let base_prob = technique_success_rate p;
          base_prob = base_prob * (case sophistication_level p of
                                     LOW \<Rightarrow> 0.8 | MEDIUM \<Rightarrow> 0.9 | HIGH \<Rightarrow> 1.0 | ADVANCED \<Rightarrow> 1.1);
          base_prob = (if pl_tactic phase \<in> set [''privilege-escalation'', ''defense-evasion'', ''persistence'']
                       then base_prob * 0.85 else base_prob)
      in min base_prob 0.95)"

definition calculate_detection_probability :: "AttackerPersona \<Rightarrow> plan_phase \<Rightarrow> real" where
  "calculate_detection_probability p phase =
     (let base_detection = 0.3;
          base_detection = (if stealth_preference p = STEALTHY then base_detection * 0.5
                            else if stealth_preference p = NOISY then base_detection * 1.5
                            else base_detection);
          base_detection = (if pl_tactic phase \<in> set [''impact'', ''exfiltration'', ''lateral-movement'']
                            then base_detection * 1.3 else base_detection);
          base_detection = (if stealth_mode phase then base_detection * 0.6 else base_detection)
      in min base_detection 0.9)"

definition get_tactic_priority :: "AttackerPersona \<Rightarrow> string \<Rightarrow> int" where
  "get_tactic_priority p tac =
     (if tac = ''initial-access'' then 10
      else if tac = ''execution'' then 9
      else if tac = ''persistence'' then (if persistence_priority p > 0.7 then 8 else 5)
      else if tac = ''privilege-escalation'' then 7
      else if tac = ''defense-evasion'' then (if stealth_preference p = STEALTHY then 8 else 4)
      else if tac = ''credential-access'' then 6
      else if tac = ''discovery'' then 5
      else if tac = ''lateral-movement'' then 6
      else if tac = ''collection'' then (if data_exfiltration_priority p > 0.7 then 7 else 3)
      else if tac = ''command-and-control'' then 6
      else if tac = ''exfiltration'' then (if data_exfiltration_priority p > 0.7 then 8 else 3)
      else if tac = ''impact'' then 4
      else 5)"

text \<open>The loop of \<open>_generate_persona_attack_plan\<close>: delay first, then the stealth draw.\<close>

fun plan_loop :: "AttackerPersona \<Rightarrow> chain_entry list \<Rightarrow> plan_phase list \<Rightarrow> rng \<Rightarrow> plan_phase list \<times> rng" where
  "plan_loop p [] plan g = (plan, g)"
| "plan_loop p (phase # rest) plan g =
     (case calculate_phase_delay p g of (delay, g1) \<Rightarrow>
      case should_use_stealth_technique p g1 of (stealth, g2) \<Rightarrow>
        plan_loop p rest
          (plan @ [\<lparr>pl_tactic = ce_tactic phase,
                     pl_technique_id = ce_technique_id phase,
                     pl_technique_name = ce_technique_name phase,
                     pl_description = ce_description phase,
                     expected_delay_minutes = delay,
                     stealth_mode = stealth,
                     priority = get_tactic_priority p (ce_tactic phase)\<rparr>])
          g2)"

definition generate_persona_attack_plan :: "AttackerPersona \<Rightarrow> string \<Rightarrow> rng \<Rightarrow> plan_phase list \<times> rng" where
  "generate_persona_attack_plan p scen g =
     (case get_attack_chain p scen g of (attack_chain, g1) \<Rightarrow> plan_loop p attack_chain [] g1)"

text \<open>\<open>str(n)\<close> for a non-negative integer.\<close>

fun str_nat :: "nat \<Rightarrow> string" where
  "str_nat n = (if n < 10 then [''0123456789'' ! n]
                else str_nat (n div 10) @ [''0123456789'' ! (n mod 10)])"

declare str_nat.simps [simp del]

definition generate_attack_artifacts :: "plan_phase \<Rightarrow> rng \<Rightarrow> artifact list \<times> rng" where
  "generate_attack_artifacts phase g =
     (if pl_tactic phase = ''initial-access'' then
        (case random_randint 1 255 g of (a, g1) \<Rightarrow>
         case random_randint 1 255 g1 of (b, g2) \<Rightarrow>
         case random_randint 1 255 g2 of (c, g3) \<Rightarrow>
           ([\<lparr>art_type = ''network'', art_description = ''Suspicious external connection'',
              ioc = ''185.'' @ str_nat (nat a) @ ''.'' @ str_nat (nat b) @ ''.'' @ str_nat (nat c)\<rparr>], g3))
      else if pl_tactic phase = ''execution'' then
        (case random_choice ''powershell.exe'' [''cmd.exe'', ''wscript.exe''] g of (x, g1) \<Rightarrow>
           ([\<lparr>art_type = ''process'', art_description = ''Suspicious process execution'', ioc = x\<rparr>], g1))
      else if pl_tactic phase = ''persistence'' then
        ([\<lparr>art_type = ''registry'', art_description = ''Registry key modification'',
           ioc = ''HKLM'' @ CHR 0x5C # ''Software'' @ CHR 0x5C # ''Microsoft'' @ CHR 0x5C # ''Windows''
                 @ CHR 0x5C # ''CurrentVersion'' @ CHR 0x5C # ''Run''\<rparr>], g)
      else if pl_tactic phase = ''exfiltration'' then
        (case random_randint 10 500 g of (n, g1) \<Rightarrow>
           ([\<lparr>art_type = ''network'', art_description = ''Large data transfer'',
              ioc = str_nat (nat n) @ '' MB uploaded''\<rparr>], g1))
      else ([], g))"

text \<open>
  \<open>_generate_indicators\<close>: \<open>'T1566' in technique_id\<close> is a substring test, and raises
  TypeError when \<open>technique_id\<close> is Python's \<open>None\<close>.
\<close>

definition generate_indicators :: "plan_phase \<Rightarrow> error + string list" where
  "generate_indicators phase =
     (case pl_technique_id phase of
        None \<Rightarrow> Inl TypeError
      | Some technique_id \<Rightarrow>
          Inr (if py_in_str ''T1566'' technique_id then
                 [''Suspicious email with attachment'', ''User clicked on external link'']
               else if py_in_str ''T1055'' technique_id then
                 [''Process memory modification detected'', ''Unusual process behavior'']
               else if py_in_str ''T1003'' technique_id then
                 [''lsass.exe access detected'', ''Suspicious credential access'']
               else if py_in_str ''T1041'' technique_id then
                 [''Unusual outbound traffic volume'', ''Connection to known C2 infrastructure'']
               else []))"

text \<open>
  \<open>_execute_phase\<close>, lines 248--260: a detected phase adds a detection event and is
  blocked with probability 0.3.
\<close>

definition handle_detection ::
  "plan_phase \<Rightarrow> phase_result \<Rightarrow> campaign \<Rightarrow> rng \<Rightarrow> phase_result \<times> campaign \<times> rng" where
  "handle_detection phase result c g =
     (if detected result then
        (let c1 = c\<lparr>detection_events := detection_events c @
                     [\<lparr>de_phase = pl_tactic phase,
                       de_technique = pl_technique_id phase,
                       severity = (if pl_tactic phase \<in> set [''impact'', ''exfiltration'']
                                   then ''high'' else ''medium'')\<rparr>]\<rparr>
         in case random_random g of (u, g1) \<Rightarrow>
              if u < 0.3 then (result\<lparr>pr_status := BLOCKED\<rparr>, c1, g1) else (result, c1, g1))
      else (result, c, g))"

text \<open>\<open>_execute_phase\<close>, lines 262--273: a successful phase is recorded in the campaign.\<close>

definition track_success :: "plan_phase \<Rightarrow> phase_result \<Rightarrow> campaign \<Rightarrow> rng \<Rightarrow> campaign \<times> rng" where
  "track_success phase result c g =
     (if pr_status result = SUCCESS then
        (let c1 = c\<lparr>techniques_used := techniques_used c @ [pl_technique_id phase]\<rparr>
         in if pl_tactic phase = ''initial-access'' then
              (c1\<lparr>objectives_completed := objectives_completed c1 @ [''initial_access'']\<rparr>, g)
            else if pl_tactic phase = ''persistence'' then
              (c1\<lparr>objectives_completed := objectives_completed c1 @ [''persistence_established'']\<rparr>, g)
            else if pl_tactic phase = ''exfiltration'' then
              (let c2 = c1\<lparr>objectives_completed := objectives_completed c1 @ [''data_exfiltrated'']\<rparr>
               in case random_randint 1 100 g of (mb, g1) \<Rightarrow>
                    (c2\<lparr>data_exfiltrated := data_exfiltrated c2 + mb\<rparr>, g1))
            else (c1, g))
      else (c, g))"

text \<open>
  \<open>_execute_phase\<close>. The two outcome draws come first; the result dictionary then
  evaluates the artifacts and the indicators, in this order. An exception ends the
  campaign: the state it leaves behind is not part of the model.
\<close>

definition execute_phase ::
  "AttackerPersona \<Rightarrow> plan_phase \<Rightarrow> string \<Rightarrow> campaign \<Rightarrow> rng \<Rightarrow>
   error + (phase_result \<times> campaign \<times> rng)" where
  "execute_phase p phase tgt c g =
     (let success_probability = calculate_success_probability p phase;
          detection_probability = calculate_detection_probability p phase
      in case random_random g of (u1, g1) \<Rightarrow>
         case random_random g1 of (u2, g2) \<Rightarrow>
         case generate_attack_artifacts phase g2 of (arts, g3) \<Rightarrow>
         (case generate_indicators phase of
            Inl e \<Rightarrow> Inl e
          | Inr inds \<Rightarrow>
             (let result = \<lparr>pr_tactic = pl_tactic phase,
                            pr_technique_id = pl_technique_id phase,
                            pr_technique_name = pl_technique_name phase,
                            pr_target = tgt,
                            pr_status = (if u1 < success_probability then SUCCESS else FAILED),
                            detected = (u2 < detection_probability),
                            artifacts = arts,
                            indicators = inds\<rparr>
              in case handle_detection phase result c g3 of (result1, c1, g4) \<Rightarrow>
                 case track_success phase result1 c1 g4 of (c2, g5) \<Rightarrow>
                   Inr (result1, c2, g5))))"

text \<open>
  \<open>_get_alternative_technique\<close>: the failed technique's id is the only excluded id; the
  delay is drawn after the selection.
\<close>

definition get_alternative_technique ::
  "AttackerPersona \<Rightarrow> plan_phase \<Rightarrow> rng \<Rightarrow> plan_phase option \<times> rng" where
  "get_alternative_technique p original_phase g =
     (case select_technique_for_tactic p (pl_tactic original_phase)
             (Some [pl_technique_id original_phase]) g of
        (None, g1) \<Rightarrow> (None, g1)
      | (Some alternative, g1) \<Rightarrow>
          (case calculate_phase_delay p g1 of (delay, g2) \<Rightarrow>
             (Some \<lparr>pl_tactic = pl_tactic original_phase,
                     pl_technique_id = get_external_id_default alternative,
                     pl_technique_name = get_name_default alternative,
                     pl_description = take 200 (get_description_default alternative),
                     expected_delay_minutes = delay,
                     stealth_mode = True,
                     priority = priority original_phase\<rparr>, g2)))"

text \<open>The loop of \<open>execute_attack_campaign\<close>, lines 138--159.\<close>

fun campaign_loop ::
  "AttackerPersona \<Rightarrow> string \<Rightarrow> bool \<Rightarrow> plan_phase list \<Rightarrow> campaign \<Rightarrow> rng \<Rightarrow>
   error + (campaign \<times> rng)" where
  "campaign_loop p tgt auto_execute [] c g = Inr (c, g)"
| "campaign_loop p tgt auto_execute (phase # rest) c g =
     (if auto_execute then
        (case execute_phase p phase tgt c g of
           Inl e \<Rightarrow> Inl e
         | Inr (phase_result, c1, g1) \<Rightarrow>
             (let c2 = c1\<lparr>phases := phases c1 @ [Executed phase_result]\<rparr>
              in if pr_status phase_result \<in> set [BLOCKED, FAILED] then
                   (case should_use_stealth_technique p g1 of (stealth, g2) \<Rightarrow>
                      if stealth then
                        (case get_alternative_technique p phase g2 of
                           (None, g3) \<Rightarrow> campaign_loop p tgt auto_execute rest c2 g3
                         | (Some alt_phase, g3) \<Rightarrow>
                             (case execute_phase p alt_phase tgt c2 g3 of
                                Inl e \<Rightarrow> Inl e
                              | Inr (alt_result, c3, g4) \<Rightarrow>
                                  campaign_loop p tgt auto_execute rest
                                    (c3\<lparr>phases := phases c3 @ [Executed alt_result]\<rparr>) g4))
                      else campaign_loop p tgt auto_execute rest c2 g2)
                 else campaign_loop p tgt auto_execute rest c2 g1))
      else campaign_loop p tgt auto_execute rest (c\<lparr>phases := phases c @ [Planned phase]\<rparr>) g)"

text \<open>\<open>p.get('status')\<close> and \<open>p.get('detected', False)\<close> on an entry of the phase list.\<close>

fun entry_status :: "phase_entry \<Rightarrow> AttackStatus" where
  "entry_status (Planned ph) = PLANNED"
| "entry_status (Executed r) = pr_status r"

fun entry_detected :: "phase_entry \<Rightarrow> bool" where
  "entry_detected (Planned ph) = False"
| "entry_detected (Executed r) = detected r"

text \<open>
  The generator of line 500 reads \<open>p['tactic']\<close> only for entries that passed the filter
  \<open>p.get('status') == SUCCESS\<close>; a planned entry never does.
\<close>

fun entry_lateral :: "phase_entry \<Rightarrow> bool" where
  "entry_lateral (Planned ph) = False"
| "entry_lateral (Executed r) = (pr_status r = SUCCESS \<and> py_in_str ''lateral-movement'' (pr_tactic r))"

text \<open>
  \<open>k / total_phases if total_phases > 0 else 0\<close>: the quotient of two integers is the
  double nearest to the exact quotient.
\<close>

definition phase_rate :: "nat \<Rightarrow> nat \<Rightarrow> real" where
  "phase_rate k total_phases =
     (if total_phases > 0 then to_double (real k / real total_phases) else 0)"

text \<open>
  Lines 506--519: the risk score from the achieved objectives and the detection rate.
  \<open>risk_score *= (1 - rate * 0.3)\<close> is three double operations on the literal \<open>0.3\<close>, the
  rate and the integer score; \<open>int\<close> truncates the product.
\<close>

definition risk_score_of :: "objectives \<Rightarrow> real \<Rightarrow> int" where
  "risk_score_of objs rate =
     (let score = (0::int);
          score = (if initial_access objs then score + 20 else score);
          score = (if persistence objs then score + 25 else score);
          score = (if data_theft objs then score + 30 else score);
          score = (if lateral_movement objs then score + 25 else score);
          adjusted = to_double (real_of_int score * to_double (1 - to_double (rate * to_double 0.3)))
      in min (py_int adjusted) 100)"

definition campaign_metrics :: "campaign \<Rightarrow> campaign" where
  "campaign_metrics c =
     (let total_phases = length (phases c);
          successful_phases = length (filter (\<lambda>e. entry_status e = SUCCESS) (phases c));
          detected_phases = length (filter entry_detected (phases c));
          rate = phase_rate detected_phases total_phases;
          objs = \<lparr>initial_access = ''initial_access'' \<in> set (objectives_completed c),
                  persistence = ''persistence_established'' \<in> set (objectives_completed c),
                  data_theft = ''data_exfiltrated'' \<in> set (objectives_completed c),
                  lateral_movement = list_ex entry_lateral (phases c)\<rparr>
      in c\<lparr>success_rate := Some (phase_rate successful_phases total_phases),
            detection_rate := Some rate,
            objectives_achieved := Some objs,
            risk_score := Some (risk_score_of objs rate)\<rparr>)"

text \<open>\<open>_calculate_campaign_metrics\<close>: nothing happens without a current campaign.\<close>

definition calculate_campaign_metrics :: "RedTeamAgentWithPersona \<Rightarrow> RedTeamAgentWithPersona" where
  "calculate_campaign_metrics self =
     (case current_campaign self of
        None \<Rightarrow> self
      | Some c \<Rightarrow> self\<lparr>current_campaign := Some (campaign_metrics c)\<rparr>)"

text \<open>
  \<open>execute_attack_campaign\<close>. A persona object is always truthy, so \<open>if not self.persona\<close>
  holds exactly when no persona is set. \<open>self.current_campaign\<close> is assigned before the
  loop, so \<open>_calculate_campaign_metrics\<close> takes its second branch. The function returns
  the campaign dictionary; the model returns it with the agent's new state and the rest
  of the random sequence.
\<close>

definition execute_attack_campaign ::
  "RedTeamAgentWithPersona \<Rightarrow> string \<Rightarrow> string \<Rightarrow> int \<Rightarrow> bool \<Rightarrow> rng \<Rightarrow>
   error + (campaign \<times> RedTeamAgentWithPersona \<times> rng)" where
  "execute_attack_campaign self tgt scen max_hours auto_execute g =
     (case persona self of
        None \<Rightarrow> Inl ValueError
      | Some p \<Rightarrow>
          (let c0 = \<lparr>target = tgt, scenario = scen, max_duration_hours = max_hours,
                     status = ''active'', phases = [], techniques_used = [],
                     objectives_completed = [], detection_events = [], data_exfiltrated = 0,
                     attack_plan = [], success_rate = None, detection_rate = None,
                     objectives_achieved = None, risk_score = None\<rparr>
           in case generate_persona_attack_plan p scen g of (plan, g1) \<Rightarrow>
             (case campaign_loop p tgt auto_execute plan (c0\<lparr>attack_plan := plan\<rparr>) g1 of
                Inl e \<Rightarrow> Inl e
              | Inr (c1, g2) \<Rightarrow>
                  (let c2 = campaign_metrics (c1\<lparr>status := ''completed''\<rparr>)
                   in Inr (c2,
                           self\<lparr>current_campaign := Some c2,
                                attack_history := attack_history self @ [c2]\<rparr>,
                           g2)))))"

subsection \<open>persona.py: building a persona from the store\<close>

text \<open>
  The keyword arguments of \<open>from_mitre_data\<close>: the keys of an entry of \<open>PERSONA_CONFIGS\<close>
  or of a generated configuration. \<open>description_override\<close> is popped by the caller before
  the call; only a generated configuration carries \<open>technique_success_rate\<close>.
\<close>

record persona_config =
  cfg_sophistication_level :: SophisticationLevel
  cfg_stealth_preference :: StealthLevel
  cfg_attack_speed :: AttackSpeed
  cfg_target_industries :: "string list"
  cfg_target_regions :: "string list"
  cfg_motivations :: "string list"
  cfg_preferred_tools :: "string list"
  cfg_description_override :: "string option"
  cfg_detection_sensitivity :: real
  cfg_persistence_priority :: real
  cfg_data_exfiltration_priority :: real
  cfg_max_techniques_per_phase :: int
  cfg_technique_success_rate :: "real option"

text \<open>Lines 110--114: the group's own MITRE id.\<close>

fun group_mitre_id :: "external_reference list \<Rightarrow> string" where
  "group_mitre_id [] = []"
| "group_mitre_id (r # refs) =
     (if source_name r = Some ''mitre-attack''
      then (case ref_external_id r of None \<Rightarrow> [] | Some i \<Rightarrow> i)
      else group_mitre_id refs)"

text \<open>
  Lines 117--121 and 150--157 read \<open>phase['phase_name']\<close> of every phase of the chain
  \<open>mitre-attack\<close>: KeyError when the key is missing.
\<close>

fun phase_names :: "kill_chain_phase list \<Rightarrow> error + string list" where
  "phase_names [] = Inr []"
| "phase_names (phase # rest) =
     (if kill_chain_name phase = Some ''mitre-attack'' then
        (case phase_name phase of
           None \<Rightarrow> Inl KeyError
         | Some n \<Rightarrow> (case phase_names rest of Inl e \<Rightarrow> Inl e | Inr ns \<Rightarrow> Inr (n # ns)))
      else phase_names rest)"

fun technique_tactics :: "stix_object list \<Rightarrow> error + string list" where
  "technique_tactics [] = Inr []"
| "technique_tactics (tech # rest) =
     (case phase_names (kill_chain_phases tech) of
        Inl e \<Rightarrow> Inl e
      | Inr ns \<Rightarrow> (case technique_tactics rest of Inl e \<Rightarrow> Inl e | Inr ms \<Rightarrow> Inr (ns @ ms)))"

text \<open>
  \<open>_categorize_techniques_by_tactic\<close>: once the phase names are known to be readable, the
  entry of a tactic is the list of the techniques, one copy for each of its phases of
  that name, in the order of the technique list.
\<close>

definition techniques_of_tactic :: "stix_object list \<Rightarrow> string \<Rightarrow> stix_object list" where
  "techniques_of_tactic techs tac =
     concat (map (\<lambda>tech. map (\<lambda>ph. tech)
                    (filter (\<lambda>ph. kill_chain_name ph = Some ''mitre-attack'' \<and> phase_name ph = Some tac)
                       (kill_chain_phases tech))) techs)"

text \<open>
  \<open>t.get('external_id', t['name'])\<close>: the default is evaluated first, so a technique
  without a name raises KeyError.
\<close>

definition preferred_id :: "stix_object \<Rightarrow> error + string option" where
  "preferred_id t =
     (case obj_name t of
        None \<Rightarrow> Inl KeyError
      | Some n \<Rightarrow> Inr (case external_id t of None \<Rightarrow> Some n | Some v \<Rightarrow> v))"

fun preferred_ids :: "stix_object list \<Rightarrow> error + string option list" where
  "preferred_ids [] = Inr []"
| "preferred_ids (t # ts) =
     (case preferred_id t of
        Inl e \<Rightarrow> Inl e
      | Inr i \<Rightarrow> (case preferred_ids ts of Inl e \<Rightarrow> Inl e | Inr is \<Rightarrow> Inr (i # is)))"

text \<open>
  One round of the loop of \<open>_set_preferred_techniques\<close>: the attribute is set only when
  the tactic has an entry, from its first five techniques.
\<close>

definition set_preferred ::
  "stix_object list \<Rightarrow> string \<Rightarrow> (string option list \<Rightarrow> AttackerPersona \<Rightarrow> AttackerPersona) \<Rightarrow>
   AttackerPersona \<Rightarrow> error + AttackerPersona" where
  "set_preferred techs tac setattr self =
     (case techniques_of_tactic techs tac of
        [] \<Rightarrow> Inr self
      | t # ts \<Rightarrow> (case preferred_ids (take 5 (t # ts)) of
                     Inl e \<Rightarrow> Inl e
                   | Inr technique_ids \<Rightarrow> Inr (setattr technique_ids self)))"

fun set_all_preferred ::
  "stix_object list \<Rightarrow> (string \<times> (string option list \<Rightarrow> AttackerPersona \<Rightarrow> AttackerPersona)) list \<Rightarrow>
   AttackerPersona \<Rightarrow> error + AttackerPersona" where
  "set_all_preferred techs [] self = Inr self"
| "set_all_preferred techs ((tac, setattr) # rest) self =
     (case set_preferred techs tac setattr self of
        Inl e \<Rightarrow> Inl e
      | Inr self' \<Rightarrow> set_all_preferred techs rest self')"

definition tactic_to_attr ::
  "(string \<times> (string option list \<Rightarrow> AttackerPersona \<Rightarrow> AttackerPersona)) list" where
  "tactic_to_attr =
     [(''initial-access'', \<lambda>v p. p\<lparr>preferred_initial_access := v\<rparr>),
      (''persistence'', \<lambda>v p. p\<lparr>preferred_persistence := v\<rparr>),
      (''privilege-escalation'', \<lambda>v p. p\<lparr>preferred_privilege_escalation := v\<rparr>),
      (''defense-evasion'', \<lambda>v p. p\<lparr>preferred_defense_evasion := v\<rparr>),
      (''credential-access'', \<lambda>v p. p\<lparr>preferred_credential_access := v\<rparr>),
      (''discovery'', \<lambda>v p. p\<lparr>preferred_discovery := v\<rparr>),
      (''lateral-movement'', \<lambda>v p. p\<lparr>preferred_lateral_movement := v\<rparr>),
      (''collection'', \<lambda>v p. p\<lparr>preferred_collection := v\<rparr>),
      (''command-and-control'', \<lambda>v p. p\<lparr>preferred_command_control := v\<rparr>),
      (''exfiltration'', \<lambda>v p. p\<lparr>preferred_exfiltration := v\<rparr>),
      (''impact'', \<lambda>v p. p\<lparr>preferred_impact := v\<rparr>)]"

text \<open>\<open>[s['name'] for s in software[:5]]\<close>.\<close>

fun software_names :: "stix_object list \<Rightarrow> error + string list" where
  "software_names [] = Inr []"
| "software_names (s # ss) =
     (case obj_name s of
        None \<Rightarrow> Inl KeyError
      | Some n \<Rightarrow> (case software_names ss of Inl e \<Rightarrow> Inl e | Inr ns \<Rightarrow> Inr (n # ns)))"

text \<open>
  The dataclass constructor with the keyword arguments of a configuration, or with the
  defaults of the dataclass when there is none.
\<close>

definition new_persona ::
  "string \<Rightarrow> string \<Rightarrow> string \<Rightarrow> string list \<Rightarrow> string \<Rightarrow> string list \<Rightarrow> stix_object list \<Rightarrow>
   stix_object list \<Rightarrow> persona_config option \<Rightarrow> AttackerPersona" where
  "new_persona sid mid nm als descr tacs techs softs kwargs =
     \<lparr>stix_id = sid, mitre_id = mid, name = nm, aliases = als, description = descr,
      tactics = tacs, techniques = techs, software = softs,
      sophistication_level = (case kwargs of None \<Rightarrow> MEDIUM | Some k \<Rightarrow> cfg_sophistication_level k),
      stealth_preference = (case kwargs of None \<Rightarrow> BALANCED | Some k \<Rightarrow> cfg_stealth_preference k),
      attack_speed = (case kwargs of None \<Rightarrow> MODERATE | Some k \<Rightarrow> cfg_attack_speed k),
      target_industries = (case kwargs of None \<Rightarrow> [] | Some k \<Rightarrow> cfg_target_industries k),
      target_regions = (case kwargs of None \<Rightarrow> [] | Some k \<Rightarrow> cfg_target_regions k),
      motivations = (case kwargs of None \<Rightarrow> [] | Some k \<Rightarrow> cfg_motivations k),
      preferred_initial_access = [], preferred_persistence = [],
      preferred_privilege_escalation = [], preferred_defense_evasion = [],
      preferred_credential_access = [], preferred_discovery = [],
      preferred_lateral_movement = [], preferred_collection = [],
      preferred_command_control = [], preferred_exfiltration = [], preferred_impact = [],
      preferred_tools = (case kwargs of None \<Rightarrow> [] | Some k \<Rightarrow> cfg_preferred_tools k),
      max_techniques_per_phase = (case kwargs of None \<Rightarrow> 3 | Some k \<Rightarrow> cfg_max_techniques_per_phase k),
      technique_success_rate =
        (case kwargs of None \<Rightarrow> 0.7
         | Some k \<Rightarrow> (case cfg_technique_success_rate k of None \<Rightarrow> 0.7 | Some r \<Rightarrow> r)),
      detection_sensitivity = (case kwargs of None \<Rightarrow> 0.5 | Some k \<Rightarrow> cfg_detection_sensitivity k),
      persistence_priority = (case kwargs of None \<Rightarrow> 0.8 | Some k \<Rightarrow> cfg_persistence_priority k),
      data_exfiltration_priority =
        (case kwargs of None \<Rightarrow> 0.6 | Some k \<Rightarrow> cfg_data_exfiltration_priority k)\<rparr>"

text \<open>
  \<open>from_mitre_data\<close>. The set of tactics is kept as a list and made duplicate-free when
  it is sorted. \<open>if not group\<close>: a group found in the store is a non-empty dictionary.
\<close>

definition from_mitre_data ::
  "MITREStixClient \<Rightarrow> string \<Rightarrow> persona_config option \<Rightarrow> error + AttackerPersona" where
  "from_mitre_data mitre group_name kwargs =
     (case get_group_by_name mitre group_name of
        None \<Rightarrow> Inl ValueError
      | Some grp \<Rightarrow>
          (case obj_id grp of
             None \<Rightarrow> Inl KeyError
           | Some gid \<Rightarrow>
               (let techs = get_techniques_for_group mitre gid;
                    softs = get_software_for_group mitre gid;
                    mid = group_mitre_id (external_references grp)
                in case technique_tactics techs of
                     Inl e \<Rightarrow> Inl e
                   | Inr tacs \<Rightarrow>
                       (case obj_name grp of
                          None \<Rightarrow> Inl KeyError
                        | Some nm \<Rightarrow>
                            (case set_all_preferred techs tactic_to_attr
                                    (new_persona gid mid nm (obj_aliases grp)
                                       (get_description_default grp) (sort (remdups tacs))
                                       techs softs kwargs) of
                               Inl e \<Rightarrow> Inl e
                             | Inr p \<Rightarrow>
                                 (case software_names (take 5 softs) of
                                    Inl e \<Rightarrow> Inl e
                                  | Inr tools \<Rightarrow> Inr (p\<lparr>preferred_tools := tools\<rparr>)))))))"

subsection \<open>persona_library.py: the persona library and its cache\<close>

definition PERSONA_CONFIGS :: "(string \<times> persona_config) list" where
  "PERSONA_CONFIGS =
     [
      (''APT29'',
       \<lparr>cfg_sophistication_level = ADVANCED,
        cfg_stealth_preference = STEALTHY,
        cfg_attack_speed = SLOW,
        cfg_target_industries = [''Government'', ''Technology'', ''Energy'', ''Healthcare'', ''Think Tanks''],
        cfg_target_regions = [''North America'', ''Europe'', ''Asia''],
        cfg_motivations = [''espionage'', ''intelligence_gathering''],
        cfg_preferred_tools = [''PowerShell Empire'', ''Cobalt Strike'', ''Custom Malware''],
        cfg_description_override = Some ''Russian state-sponsored group (SVR) known for sophisticated, stealthy operations'',
        cfg_detection_sensitivity = 0.9,
        cfg_persistence_priority = 0.95,
        cfg_data_exfiltration_priority = 0.9,
        cfg_max_techniques_per_phase = 5,
        cfg_technique_success_rate = None\<rparr>),
      (''APT28'',
       \<lparr>cfg_sophistication_level = ADVANCED,
        cfg_stealth_preference = BALANCED,
        cfg_attack_speed = MODERATE,
        cfg_target_industries = [''Government'', ''Defense'', ''Aerospace'', ''Media'', ''Think Tanks''],
        cfg_target_regions = [''Europe'', ''North America'', ''Middle East'', ''Asia''],
        cfg_motivations = [''espionage'', ''information_warfare'', ''disruption''],
        cfg_preferred_tools = [''Sofacy'', ''X-Agent'', ''X-Tunnel'', ''Mimikatz''],
        cfg_description_override = Some ''Russian military intelligence (GRU) with aggressive operational style'',
        cfg_detection_sensitivity = 0.6,
        cfg_persistence_priority = 0.8,
        cfg_data_exfiltration_priority = 0.7,
        cfg_max_techniques_per_phase = 4,
        cfg_technique_success_rate = None\<rparr>),
      (''Lazarus Group'',
       \<lparr>cfg_sophistication_level = ADVANCED,
        cfg_stealth_preference = NOISY,
        cfg_attack_speed = FAST,
        cfg_target_industries = [''Financial'', ''Cryptocurrency'', ''Defense'', ''Technology'', ''Media''],
        cfg_target_regions = [''Global''],
        cfg_motivations = [''financial'', ''disruption'', ''espionage'', ''destruction''],
        cfg_preferred_tools = [''Custom Malware'', ''DTrack'', ''Bankshot'', ''WannaCry''],
        cfg_description_override = Some ''North Korean state-sponsored group known for destructive attacks and financial theft'',
        cfg_detection_sensitivity = 0.3,
        cfg_persistence_priority = 0.7,
        cfg_data_exfiltration_priority = 0.8,
        cfg_max_techniques_per_phase = 6,
        cfg_technique_success_rate = None\<rparr>),
      (''FIN7'',
       \<lparr>cfg_sophistication_level = HIGH,
        cfg_stealth_preference = STEALTHY,
        cfg_attack_speed = MODERATE,
        cfg_target_industries = [''Retail'', ''Hospitality'', ''Restaurant'', ''Financial Services''],
        cfg_target_regions = [''North America'', ''Europe'', ''Asia''],
        cfg_motivations = [''financial''],
        cfg_preferred_tools = [''Carbanak'', ''Cobalt Strike'', ''PowerShell'', ''Mimikatz''],
        cfg_description_override = Some ''Financially motivated cybercriminal group targeting payment card data'',
        cfg_detection_sensitivity = 0.8,
        cfg_persistence_priority = 0.85,
        cfg_data_exfiltration_priority = 0.95,
        cfg_max_techniques_per_phase = 4,
        cfg_technique_success_rate = None\<rparr>),
      (''APT1'',
       \<lparr>cfg_sophistication_level = HIGH,
        cfg_stealth_preference = BALANCED,
        cfg_attack_speed = MODERATE,
        cfg_target_industries = [''Technology'', ''Financial'', ''Manufacturing'', ''Energy'', ''Healthcare''],
        cfg_target_regions = [''North America'', ''Europe'', ''Asia Pacific''],
        cfg_motivations = [''espionage'', ''intellectual_property_theft''],
        cfg_preferred_tools = [''WEBC2'', ''BISCUIT'', ''SEASALT'', ''Custom Tools''],
        cfg_description_override = Some ''Chinese military unit focused on intellectual property theft'',
        cfg_detection_sensitivity = 0.5,
        cfg_persistence_priority = 0.9,
        cfg_data_exfiltration_priority = 0.85,
        cfg_max_techniques_per_phase = 3,
        cfg_technique_success_rate = None\<rparr>),
      (''Carbanak'',
       \<lparr>cfg_sophistication_level = HIGH,
        cfg_stealth_preference = STEALTHY,
        cfg_attack_speed = SLOW,
        cfg_target_industries = [''Financial'', ''Hospitality'', ''Retail''],
        cfg_target_regions = [''Global''],
        cfg_motivations = [''financial''],
        cfg_preferred_tools = [''Carbanak Malware'', ''Cobalt Strike'', ''Mimikatz'', ''Metasploit''],
        cfg_description_override = Some ''Cybercriminal group specializing in financial institution theft'',
        cfg_detection_sensitivity = 0.85,
        cfg_persistence_priority = 0.8,
        cfg_data_exfiltration_priority = 0.9,
        cfg_max_techniques_per_phase = 3,
        cfg_technique_success_rate = None\<rparr>),
      (''APT33'',
       \<lparr>cfg_sophistication_level = HIGH,
        cfg_stealth_preference = BALANCED,
        cfg_attack_speed = MODERATE,
        cfg_target_industries = [''Aviation'', ''Energy'', ''Government'', ''Defense''],
        cfg_target_regions = [''Middle East'', ''North America'', ''Europe''],
        cfg_motivations = [''espionage'', ''disruption''],
        cfg_preferred_tools = [''DROPSHOT'', ''SHAPESHIFT'', ''TURNEDUP'', ''Custom Malware''],
        cfg_description_override = Some ''Iranian group targeting aviation and energy sectors'',
        cfg_detection_sensitivity = 0.6,
        cfg_persistence_priority = 0.75,
        cfg_data_exfiltration_priority = 0.7,
        cfg_max_techniques_per_phase = 4,
        cfg_technique_success_rate = None\<rparr>),
      (''Equation'',
       \<lparr>cfg_sophistication_level = ADVANCED,
        cfg_stealth_preference = STEALTHY,
        cfg_attack_speed = SLOW,
        cfg_target_industries = [''Government'', ''Technology'', ''Telecommunications'', ''Defense'', ''Research''],
        cfg_target_regions = [''Global''],
        cfg_motivations = [''espionage'', ''intelligence_gathering''],
        cfg_preferred_tools = [''EQUATIONDRUG'', ''GRAYFISH'', ''FANNY'', ''Custom Implants''],
        cfg_description_override = Some ''Highly sophisticated group with advanced persistent capabilities'',
        cfg_detection_sensitivity = 0.95,
        cfg_persistence_priority = 0.98,
        cfg_data_exfiltration_priority = 0.85,
        cfg_max_techniques_per_phase = 7,
        cfg_technique_success_rate = None\<rparr>),
      (''DarkHydrus'',
       \<lparr>cfg_sophistication_level = MEDIUM,
        cfg_stealth_preference = BALANCED,
        cfg_attack_speed = MODERATE,
        cfg_target_industries = [''Government'', ''Critical Infrastructure'', ''Energy''],
        cfg_target_regions = [''Middle East''],
        cfg_motivations = [''espionage''],
        cfg_preferred_tools = [''RogueRobin'', ''PowerShell'', ''Custom Scripts''],
        cfg_description_override = Some ''Middle Eastern group targeting government entities'',
        cfg_detection_sensitivity = 0.5,
        cfg_persistence_priority = 0.7,
        cfg_data_exfiltration_priority = 0.75,
        cfg_max_techniques_per_phase = 3,
        cfg_technique_success_rate = None\<rparr>),
      (''Sandworm Team'',
       \<lparr>cfg_sophistication_level = ADVANCED,
        cfg_stealth_preference = NOISY,
        cfg_attack_speed = FAST,
        cfg_target_industries = [''Energy'', ''Critical Infrastructure'', ''Government'', ''Media''],
        cfg_target_regions = [''Europe'', ''North America'', ''Asia''],
        cfg_motivations = [''disruption'', ''destruction'', ''espionage''],
        cfg_preferred_tools = [''NotPetya'', ''BlackEnergy'', ''Industroyer'', ''Custom Malware''],
        cfg_description_override = Some ''Russian group known for destructive attacks on critical infrastructure'',
        cfg_detection_sensitivity = 0.2,
        cfg_persistence_priority = 0.6,
        cfg_data_exfiltration_priority = 0.4,
        cfg_max_techniques_per_phase = 5,
        cfg_technique_success_rate = None\<rparr>)]"

text \<open>
  Persona objects live in a store; a reference is an index into it, and two references
  denote the same instance exactly when they are equal. Objects are only ever added.
\<close>

type_synonym store = "AttackerPersona list"

text \<open>
  The library. Its generator is a collaborator object: \<open>generate_persona_config\<close> reads the
  MITRE client only and is a parameter here. \<open>personas_cache\<close> is \<open>None\<close> when the library
  was created with \<open>cache_personas=False\<close>.
\<close>

record PersonaLibrary =
  lib_mitre_client :: MITREStixClient
  personas_cache :: "(string \<rightharpoonup> nat) option"
  custom_personas :: "string \<rightharpoonup> nat"
  auto_generate :: bool
  generator :: "(stix_object \<Rightarrow> error + persona_config) option"

text \<open>\<open>if description_override: persona.description = description_override\<close>.\<close>

definition override_description :: "persona_config \<Rightarrow> AttackerPersona \<Rightarrow> AttackerPersona" where
  "override_description config p =
     (case cfg_description_override config of
        None \<Rightarrow> p
      | Some d \<Rightarrow> if d = [] then p else p\<lparr>description := d\<rparr>)"

text \<open>\<open>get_persona\<close>, lines 210--256: the construction of a persona that is not stored yet.\<close>

definition construct_persona :: "PersonaLibrary \<Rightarrow> string \<Rightarrow> error + AttackerPersona" where
  "construct_persona self nm =
     (case map_of PERSONA_CONFIGS nm of
        None \<Rightarrow>
          (case get_group_by_name (lib_mitre_client self) nm of
             None \<Rightarrow> Inl ValueError
           | Some grp \<Rightarrow>
               (case (if auto_generate self then generator self else None) of
                  Some generate_persona_config \<Rightarrow>
                    (case generate_persona_config grp of
                       Inl e \<Rightarrow> Inl e
                     | Inr config \<Rightarrow>
                         (case from_mitre_data (lib_mitre_client self) nm (Some config) of
                            Inl e \<Rightarrow> Inl e
                          | Inr p \<Rightarrow> Inr (override_description config p)))
                | None \<Rightarrow> from_mitre_data (lib_mitre_client self) nm None))
      | Some config \<Rightarrow>
          (case from_mitre_data (lib_mitre_client self) nm (Some config) of
             Inl e \<Rightarrow> Inl e
           | Inr p \<Rightarrow> Inr (override_description config p)))"

text \<open>
  \<open>get_persona\<close>: the cache first, then the custom personas, then construction. The new
  object is stored in the cache when there is one. An exception leaves the library and the
  store as they were.
\<close>

definition get_persona ::
  "PersonaLibrary \<Rightarrow> store \<Rightarrow> string \<Rightarrow> error + (nat \<times> PersonaLibrary \<times> store)" where
  "get_persona self st nm =
     (case (case personas_cache self of None \<Rightarrow> None | Some cache \<Rightarrow> cache nm) of
        Some r \<Rightarrow> Inr (r, self, st)
      | None \<Rightarrow>
          (case custom_personas self nm of
             Some r \<Rightarrow> Inr (r, self, st)
           | None \<Rightarrow>
               (case construct_persona self nm of
                  Inl e \<Rightarrow> Inl e
                | Inr p \<Rightarrow>
                    Inr (length st,
                         (case personas_cache self of
                            None \<Rightarrow> self
                          | Some cache \<Rightarrow> self\<lparr>personas_cache := Some (cache(nm \<mapsto> length st))\<rparr>),
                         st @ [p]))))"

definition clear_cache :: "PersonaLibrary \<Rightarrow> PersonaLibrary" where
  "clear_cache self =
     (case personas_cache self of
        None \<Rightarrow> self
      | Some cache \<Rightarrow> self\<lparr>personas_cache := Some Map.empty\<rparr>)"

subsection \<open>Predicates and drivers used in the statements\<close>

text \<open>
  A technique is classified under a tactic when one of its kill-chain phases belongs to the
  chain \<open>mitre-attack\<close> and carries the tactic's name.
\<close>

definition classified_under :: "stix_object \<Rightarrow> string \<Rightarrow> bool" where
  "classified_under tech tac =
     (\<exists>ph \<in> set (kill_chain_phases tech).
        kill_chain_name ph = Some ''mitre-attack'' \<and> phase_name ph = Some tac)"

text \<open>Every technique of the persona has a string as its id, or no id key at all.\<close>

definition ids_are_strings :: "AttackerPersona \<Rightarrow> bool" where
  "ids_are_strings p = list_all (\<lambda>t. external_id t \<noteq> Some None) (techniques p)"

text \<open>
  A client of the library that calls \<open>get_persona\<close> for each name of a list, in order, and
  goes on after a call that raised.
\<close>

fun get_personas :: "PersonaLibrary \<Rightarrow> store \<Rightarrow> string list \<Rightarrow> PersonaLibrary \<times> store" where
  "get_personas self st [] = (self, st)"
| "get_personas self st (nm # rest) =
     (case get_persona self st nm of
        Inl e \<Rightarrow> get_personas self st rest
      | Inr (r, self', st') \<Rightarrow> get_personas self' st' rest)"

text \<open>
  The library answers the name with the reference \<open>r\<close> without constructing anything:
  the cache holds \<open>r\<close> for the name, or the cache has no entry and \<open>r\<close> is the custom persona
  of that name.
\<close>

definition stored_as :: "PersonaLibrary \<Rightarrow> string \<Rightarrow> nat \<Rightarrow> bool" where
  "stored_as self nm r =
     (case personas_cache self of
        None \<Rightarrow> False
      | Some cache \<Rightarrow> cache nm = Some r \<or> (cache nm = None \<and> custom_personas self nm = Some r))"

subsection \<open>Example inputs\<close>

text \<open>
  A bundle with one group, one technique, one tool, the two edges that link them to the
  group, and a third edge whose target is not in the bundle.
\<close>

definition example_group :: stix_object where
  "example_group =
     \<lparr>obj_type = Some ''intrusion-set'', obj_id = Some ''intrusion-set--1'',
      obj_name = Some ''Example Group'', obj_aliases = [''EG''],
      obj_description = Some ''A group'',
      external_references = [\<lparr>source_name = Some ''mitre-attack'', ref_external_id = Some ''G9999''\<rparr>],
      kill_chain_phases = [], source_ref = None, target_ref = None, relationship_type = None,
      external_id = None\<rparr>"

definition example_attack_pattern :: stix_object where
  "example_attack_pattern =
     \<lparr>obj_type = Some ''attack-pattern'', obj_id = Some ''attack-pattern--1'',
      obj_name = Some ''Spearphishing Link'', obj_aliases = [],
      obj_description = Some ''Send a link'',
      external_references = [\<lparr>source_name = Some ''mitre-attack'', ref_external_id = Some ''T1566.002''\<rparr>],
      kill_chain_phases = [\<lparr>kill_chain_name = Some ''mitre-attack'', phase_name = Some ''initial-access''\<rparr>],
      source_ref = None, target_ref = None, relationship_type = None, external_id = None\<rparr>"

definition example_tool :: stix_object where
  "example_tool =
     \<lparr>obj_type = Some ''tool'', obj_id = Some ''tool--1'',
      obj_name = Some ''Cobalt Strike'', obj_aliases = [], obj_description = None,
      external_references = [\<lparr>source_name = Some ''mitre-attack'', ref_external_id = Some ''S0154''\<rparr>],
      kill_chain_phases = [], source_ref = None, target_ref = None, relationship_type = None,
      external_id = None\<rparr>"

definition example_edge :: "string \<Rightarrow> string \<Rightarrow> stix_object" where
  "example_edge i tgt =
     \<lparr>obj_type = Some ''relationship'', obj_id = Some i,
      obj_name = None, obj_aliases = [], obj_description = None,
      external_references = [], kill_chain_phases = [],
      source_ref = Some ''intrusion-set--1'', target_ref = Some tgt,
      relationship_type = Some ''uses'', external_id = None\<rparr>"

definition example_bundle :: "stix_object list" where
  "example_bundle =
     [example_group, example_attack_pattern, example_tool,
      example_edge ''relationship--1'' ''attack-pattern--1'',
      example_edge ''relationship--2'' ''tool--1'',
      example_edge ''relationship--3'' ''attack-pattern--missing'']"

definition example_technique :: stix_object where
  "example_technique = example_attack_pattern\<lparr>external_id := Some (Some ''T1566.002'')\<rparr>"

definition example_persona :: AttackerPersona where
  "example_persona =
     (new_persona ''intrusion-set--1'' ''G9999'' ''Example Group'' [''EG''] ''A group''
        [''initial-access''] [example_technique]
        [example_tool\<lparr>external_id := Some (Some ''S0154'')\<rparr>] None)
       \<lparr>preferred_initial_access := [Some ''T1566.002''], preferred_tools := [''Cobalt Strike'']\<rparr>"


definition example_agent :: RedTeamAgentWithPersona where
  "example_agent =
     \<lparr>mitre_client = parse_stix_data example_bundle, persona = Some example_persona,
      attack_history = [], current_campaign = None\<rparr>"

definition example_library :: PersonaLibrary where
  "example_library =
     \<lparr>lib_mitre_client = parse_stix_data example_bundle, personas_cache = Some Map.empty,
      custom_personas = Map.empty, auto_generate = False, generator = None\<rparr>"

text \<open>
  A bundle in which the technique's reference of source \<open>mitre-attack\<close> has no
  \<open>external_id\<close> (the key is optional in a STIX external reference), and the persona that
  \<open>from_mitre_data\<close> builds from it.
\<close>

definition no_id_bundle :: "stix_object list" where
  "no_id_bundle =
     [example_group,
      example_attack_pattern
        \<lparr>external_references := [\<lparr>source_name = Some ''mitre-attack'', ref_external_id = None\<rparr>]\<rparr>,
      example_edge ''relationship--1'' ''attack-pattern--1'']"

definition no_id_technique :: stix_object where
  "no_id_technique =
     example_attack_pattern
       \<lparr>external_references := [\<lparr>source_name = Some ''mitre-attack'', ref_external_id = None\<rparr>],
        external_id := Some None\<rparr>"

definition no_id_persona :: AttackerPersona where
  "no_id_persona =
     (new_persona ''intrusion-set--1'' ''G9999'' ''Example Group'' [''EG''] ''A group''
        [''initial-access''] [no_id_technique] [] None)
       \<lparr>preferred_initial_access := [None]\<rparr>"

text \<open>
  A campaign with three executed phases: initial access succeeded unnoticed, persistence
  failed and was detected, lateral movement was detected and blocked.
\<close>

definition example_result :: "string \<Rightarrow> AttackStatus \<Rightarrow> bool \<Rightarrow> phase_entry" where
  "example_result tac st det =
     Executed \<lparr>pr_tactic = tac, pr_technique_id = Some ''T0000'',
               pr_technique_name = ''Technique'', pr_target = ''10.0.0.0/24'',
               pr_status = st, detected = det, artifacts = [], indicators = []\<rparr>"

definition example_campaign :: campaign where
  "example_campaign =
     \<lparr>target = ''10.0.0.0/24'', scenario = ''full_chain'', max_duration_hours = 24,
      status = ''completed'',
      phases =
        [example_result ''initial-access'' SUCCESS False,
         example_result ''persistence'' FAILED True,
         example_result ''lateral-movement'' BLOCKED True],
      techniques_used = [Some ''T0000''], objectives_completed = [''initial_access''],
      detection_events = [], data_exfiltrated = 0, attack_plan = [],
      success_rate = None, detection_rate = None, objectives_achieved = None,
      risk_score = None\<rparr>"

text \<open>
  A campaign of 45 executed phases, 22 of them detected, in which initial access,
  exfiltration and lateral movement succeeded.
\<close>

definition long_campaign :: campaign where
  "long_campaign =
     \<lparr>target = ''10.0.0.0/24'', scenario = ''custom'', max_duration_hours = 24,
      status = ''completed'',
      phases =
        replicate 22 (example_result ''discovery'' FAILED True)
        @ [example_result ''initial-access'' SUCCESS False,
           example_result ''exfiltration'' SUCCESS False,
           example_result ''lateral-movement'' SUCCESS False]
        @ replicate 20 (example_result ''discovery'' SUCCESS False),
      techniques_used = replicate 23 (Some ''T0000''),
      objectives_completed = [''initial_access'', ''data_exfiltrated''],
      detection_events = [], data_exfiltrated = 42, attack_plan = [],
      success_rate = None, detection_rate = None, objectives_achieved = None,
      risk_score = None\<rparr>"

text \<open>The one phase of the plan of the example persona, with every raw draw equal to 0.\<close>

definition example_plan_phase :: plan_phase where
  "example_plan_phase =
     \<lparr>pl_tactic = ''initial-access'', pl_technique_id = Some ''T1566.002'',
      pl_technique_name = ''Spearphishing Link'', pl_description = ''Send a link...'',
      expected_delay_minutes = 15, stealth_mode = True, priority = 10\<rparr>"

section \<open>Properties\<close>

subsection \<open>Technique selection and attack chains\<close>

lemma phase_loop_eq:
  "phase_loop phs tac ex tech acc =
     (if (\<exists>ph \<in> set phs. kill_chain_name ph = Some ''mitre-attack'' \<and> phase_name ph = Some tac)
         \<and> get_external_id tech \<notin> set ex
      then acc @ [tech] else acc)"
  by (induction phs) auto

lemma matching_loop_eq:
  "matching_loop ts tac ex acc =
     acc @ filter (\<lambda>t. classified_under t tac \<and> get_external_id t \<notin> set ex) ts"
  by (induction ts arbitrary: acc) (auto simp: phase_loop_eq classified_under_def)

lemma select_Some:
  assumes "select_technique_for_tactic self tac exclude g = (Some t, g')"
  shows "t \<in> set (filter (\<lambda>t. classified_under t tac \<and>
                              get_external_id t \<notin> set (case exclude of None \<Rightarrow> [] | Some e \<Rightarrow> e))
                     (techniques self))"
proof -
  let ?ex = "case exclude of None \<Rightarrow> [] | Some e \<Rightarrow> e"
  let ?m = "filter (\<lambda>t. classified_under t tac \<and> get_external_id t \<notin> set ?ex) (techniques self)"
  have m: "matching_loop (techniques self) tac ?ex [] = ?m"
    by (simp add: matching_loop_eq)
  show ?thesis
  proof (cases ?m)
    case Nil
    with assms m show ?thesis
      by (simp add: select_technique_for_tactic_def)
  next
    case (Cons a as)
    have "(a # as) ! (d mod length (a # as)) \<in> set (a # as)" for d
      by (rule nth_mem) simp
    with assms m Cons have "t \<in> set (a # as)"
      by (auto simp: select_technique_for_tactic_def random_choice_def next_draw_def
               split: if_splits prod.splits)
    with Cons show ?thesis by simp
  qed
qed

lemma select_None:
  assumes "\<forall>t \<in> set (techniques self).
             \<not> (classified_under t tac \<and>
                get_external_id t \<notin> set (case exclude of None \<Rightarrow> [] | Some e \<Rightarrow> e))"
  shows "select_technique_for_tactic self tac exclude g = (None, g)"
proof -
  have "filter (\<lambda>t. classified_under t tac \<and>
                    get_external_id t \<notin> set (case exclude of None \<Rightarrow> [] | Some e \<Rightarrow> e))
          (techniques self) = []"
    using assms by (simp add: filter_empty_conv)
  then show ?thesis
    by (simp add: select_technique_for_tactic_def matching_loop_eq)
qed

text \<open>
  C1. Whatever the persona, the tactic, the exclude list and the random draws: a technique
  returned by \<open>select_technique_for_tactic\<close> belongs to the persona, has a kill-chain phase
  that classifies it under the tactic, and its external id is not in the exclude list (a
  missing exclude argument counts as the empty list). When no technique of the persona
  meets both conditions the result is \<open>None\<close>, and no random draw is consumed; the
  function has no failing branch.
\<close>

theorem select_technique_for_tactic_sound:
  "(select_technique_for_tactic self tac exclude g = (Some t, g') \<longrightarrow>
      t \<in> set (techniques self) \<and> classified_under t tac \<and>
      get_external_id t \<notin> set (case exclude of None \<Rightarrow> [] | Some e \<Rightarrow> e))
   \<and> ((\<forall>t \<in> set (techniques self).
          \<not> (classified_under t tac \<and>
             get_external_id t \<notin> set (case exclude of None \<Rightarrow> [] | Some e \<Rightarrow> e))) \<longrightarrow>
       select_technique_for_tactic self tac exclude g = (None, g))"
proof (intro conjI impI)
  assume sel: "select_technique_for_tactic self tac exclude g = (Some t, g')"
  from select_Some[OF sel]
  show "t \<in> set (techniques self)" and "classified_under t tac"
    and "get_external_id t \<notin> set (case exclude of None \<Rightarrow> [] | Some e \<Rightarrow> e)"
    by simp_all
next
  assume "\<forall>t \<in> set (techniques self).
            \<not> (classified_under t tac \<and>
               get_external_id t \<notin> set (case exclude of None \<Rightarrow> [] | Some e \<Rightarrow> e))"
  then show "select_technique_for_tactic self tac exclude g = (None, g)"
    by (rule select_None)
qed

lemma example_select:
  "select_technique_for_tactic example_persona ''initial-access'' None g = (Some example_technique, g)"
  by (simp add: select_technique_for_tactic_def example_persona_def new_persona_def
        example_technique_def example_attack_pattern_def get_external_id_def)

lemma example_select_excluded:
  "\<not> (classified_under example_technique ''initial-access'' \<and>
      get_external_id example_technique \<notin> set [Some ''T1566.002''])"
  by (simp add: example_technique_def get_external_id_def)

theorem select_technique_for_tactic_sound_witness:
  "select_technique_for_tactic example_persona ''initial-access'' None (\<lambda>n. 0)
     = (Some example_technique, \<lambda>n. 0)
   \<and> example_technique \<in> set (techniques example_persona)
   \<and> classified_under example_technique ''initial-access''
   \<and> get_external_id example_technique = Some ''T1566.002''
   \<and> select_technique_for_tactic example_persona ''initial-access'' (Some [Some ''T1566.002''])
        (\<lambda>n. 0) = (None, \<lambda>n. 0)"
proof -
  have t: "techniques example_persona = [example_technique]"
    by (simp add: example_persona_def new_persona_def)
  have id: "get_external_id example_technique = Some ''T1566.002''"
    by (simp add: example_technique_def get_external_id_def)
  note inst1 = select_technique_for_tactic_sound
    [of example_persona "''initial-access''" None "\<lambda>n. 0" example_technique "\<lambda>n. 0"]
  note inst2 = select_technique_for_tactic_sound
    [of example_persona "''initial-access''" "Some [Some ''T1566.002'']" "\<lambda>n. 0" example_technique "\<lambda>n. 0"]
  from inst1 example_select[of "\<lambda>n. 0"]
  have a: "example_technique \<in> set (techniques example_persona)
           \<and> classified_under example_technique ''initial-access''"
    by simp
  from inst2 t example_select_excluded
  have b: "select_technique_for_tactic example_persona ''initial-access''
             (Some [Some ''T1566.002'']) (\<lambda>n. 0) = (None, \<lambda>n. 0)"
    by simp
  from a b id example_select[of "\<lambda>n. 0"] show ?thesis by simp
qed

lemma chain_loop_inv:
  "e \<in> set (fst (chain_loop self tacs chain g)) \<Longrightarrow>
   e \<in> set chain \<or>
   (ce_tactic e \<in> set (tactics self) \<and> ce_tactic e \<in> set tacs \<and>
    (\<exists>t \<in> set (techniques self). classified_under t (ce_tactic e) \<and>
       ce_technique_id e = get_external_id_default t \<and>
       ce_technique_name e = get_name_default t \<and>
       ce_description e = take 200 (get_description_default t) @ ''...''))"
proof (induction tacs arbitrary: chain g)
  case Nil
  then show ?case by simp
next
  case (Cons tac rest)
  show ?case
  proof (cases "tac \<in> set (tactics self)")
    case False
    with Cons show ?thesis by auto
  next
    case True
    obtain r g' where sel: "select_technique_for_tactic self tac None g = (r, g')"
      by (cases "select_technique_for_tactic self tac None g")
    show ?thesis
    proof (cases r)
      case None
      with Cons True sel show ?thesis by auto
    next
      case (Some t)
      from select_Some[of self tac None g t g'] sel Some
      have t: "t \<in> set (techniques self)" "classified_under t tac" by auto
      from Cons.prems True sel Some
      have "e \<in> set (fst (chain_loop self rest
                 (chain @ [\<lparr>ce_tactic = tac,
                            ce_technique_id = get_external_id_default t,
                            ce_technique_name = get_name_default t,
                            ce_description = take 200 (get_description_default t) @ ''...''\<rparr>]) g'))"
        by simp
      from Cons.IH[OF this] True t show ?thesis by auto
    qed
  qed
qed

lemma chain_loop_no_techniques:
  "techniques self = [] \<Longrightarrow> chain_loop self tacs chain g = (chain, g)"
  by (induction tacs arbitrary: chain g) (simp_all add: select_technique_for_tactic_def)

text \<open>
  C2. For every persona, scenario name and sequence of random draws, each entry of
  \<open>get_attack_chain\<close> names a tactic of the persona's tactics list and carries the id, the
  name and the truncated description of a technique of the persona's own technique set
  that is classified under that tactic. A persona without techniques gets the empty
  chain, and the scenario \<open>ransomware\<close> on a persona whose tactics do not include
  \<open>impact\<close> gives a chain without an \<open>impact\<close> entry.
\<close>

theorem get_attack_chain_sound:
  "(\<forall>e \<in> set (fst (get_attack_chain self scen g)).
      ce_tactic e \<in> set (tactics self) \<and>
      (\<exists>t \<in> set (techniques self). classified_under t (ce_tactic e) \<and>
         ce_technique_id e = get_external_id_default t \<and>
         ce_technique_name e = get_name_default t \<and>
         ce_description e = take 200 (get_description_default t) @ ''...''))
   \<and> (techniques self = [] \<longrightarrow> fst (get_attack_chain self scen g) = [])
   \<and> (''impact'' \<notin> set (tactics self) \<longrightarrow>
        (\<forall>e \<in> set (fst (get_attack_chain self ''ransomware'' g)). ce_tactic e \<noteq> ''impact''))"
proof (intro conjI impI ballI)
  fix e assume "e \<in> set (fst (get_attack_chain self scen g))"
  then have e: "e \<in> set (fst (chain_loop self (tactic_order self scen) [] g))"
    by (simp add: get_attack_chain_def)
  from chain_loop_inv[OF e]
  show "ce_tactic e \<in> set (tactics self)"
    and "\<exists>t \<in> set (techniques self). classified_under t (ce_tactic e) \<and>
           ce_technique_id e = get_external_id_default t \<and>
           ce_technique_name e = get_name_default t \<and>
           ce_description e = take 200 (get_description_default t) @ ''...''"
    by simp_all
next
  assume "techniques self = []"
  then show "fst (get_attack_chain self scen g) = []"
    by (simp add: get_attack_chain_def chain_loop_no_techniques)
next
  fix e
  assume no: "''impact'' \<notin> set (tactics self)"
    and "e \<in> set (fst (get_attack_chain self ''ransomware'' g))"
  then have "e \<in> set (fst (chain_loop self (tactic_order self ''ransomware'') [] g))"
    by (simp add: get_attack_chain_def)
  from chain_loop_inv[OF this] have "ce_tactic e \<in> set (tactics self)" by simp
  with no show "ce_tactic e \<noteq> ''impact''" by auto
qed

lemma example_chain:
  "get_attack_chain example_persona ''ransomware'' g =
     ([\<lparr>ce_tactic = ''initial-access'', ce_technique_id = Some ''T1566.002'',
        ce_technique_name = ''Spearphishing Link'', ce_description = ''Send a link...''\<rparr>], g)"
  by (simp add: get_attack_chain_def tactic_order_def example_select get_external_id_default_def
        get_name_default_def get_description_default_def example_technique_def
        example_attack_pattern_def)
    (simp add: example_persona_def new_persona_def)

theorem get_attack_chain_sound_witness:
  "fst (get_attack_chain example_persona ''ransomware'' (\<lambda>n. 0)) =
     [\<lparr>ce_tactic = ''initial-access'', ce_technique_id = Some ''T1566.002'',
       ce_technique_name = ''Spearphishing Link'', ce_description = ''Send a link...''\<rparr>]
   \<and> ''initial-access'' \<in> set (tactics example_persona)
   \<and> ''impact'' \<notin> set (tactics example_persona)
   \<and> ''impact'' \<notin> ce_tactic ` set (fst (get_attack_chain example_persona ''ransomware'' (\<lambda>n. 0)))
   \<and> fst (get_attack_chain (example_persona\<lparr>techniques := []\<rparr>) ''full_chain'' (\<lambda>n. 0)) = []"
proof -
  have tac: "tactics example_persona = [''initial-access'']"
    by (simp add: example_persona_def new_persona_def)
  note inst1 = get_attack_chain_sound[of example_persona "''ransomware''" "\<lambda>n. 0"]
  note inst2 = get_attack_chain_sound[of "example_persona\<lparr>techniques := []\<rparr>" "''full_chain''" "\<lambda>n. 0"]
  from inst1 have "''initial-access'' \<in> set (tactics example_persona)"
    by (simp add: example_chain)
  moreover from inst1 tac
  have "''impact'' \<notin> ce_tactic ` set (fst (get_attack_chain example_persona ''ransomware'' (\<lambda>n. 0)))"
    by auto
  moreover from inst2
  have "fst (get_attack_chain (example_persona\<lparr>techniques := []\<rparr>) ''full_chain'' (\<lambda>n. 0)) = []"
    by simp
  ultimately show ?thesis using tac by (simp add: example_chain)
qed

lemma select_max:
  "select_technique_for_tactic (self\<lparr>max_techniques_per_phase := m\<rparr>) tac ex g =
   select_technique_for_tactic self tac ex g"
  by (simp add: select_technique_for_tactic_def split: list.splits)

lemma chain_loop_max:
  "chain_loop (self\<lparr>max_techniques_per_phase := m\<rparr>) tacs chain g = chain_loop self tacs chain g"
  by (induction tacs arbitrary: chain g) (auto simp: select_max split: prod.splits option.splits)

text \<open>
  C10. Two personas that differ only in \<open>max_techniques_per_phase\<close> get the same result, and
  leave the same rest of the random sequence, from \<open>select_technique_for_tactic\<close> and from
  \<open>get_attack_chain\<close> on the same arguments and the same random draws: neither function
  reads the cap.
\<close>

theorem max_techniques_per_phase_unused:
  "select_technique_for_tactic (self\<lparr>max_techniques_per_phase := m\<rparr>) tac exclude g
     = select_technique_for_tactic self tac exclude g
   \<and> get_attack_chain (self\<lparr>max_techniques_per_phase := m\<rparr>) scen g
     = get_attack_chain self scen g"
  by (simp add: select_max get_attack_chain_def chain_loop_max tactic_order_def)

theorem max_techniques_per_phase_unused_witness:
  "max_techniques_per_phase (example_persona\<lparr>max_techniques_per_phase := 7\<rparr>)
     \<noteq> max_techniques_per_phase example_persona
   \<and> get_attack_chain (example_persona\<lparr>max_techniques_per_phase := 7\<rparr>) ''ransomware'' (\<lambda>n. 0)
     = get_attack_chain example_persona ''ransomware'' (\<lambda>n. 0)
   \<and> select_technique_for_tactic (example_persona\<lparr>max_techniques_per_phase := 7\<rparr>)
        ''initial-access'' None (\<lambda>n. 0)
     = (Some example_technique, \<lambda>n. 0)"
  using max_techniques_per_phase_unused
    [where self = example_persona and m = 7 and tac = "''initial-access''" and exclude = None
       and g = "\<lambda>n. 0" and scen = "''ransomware''"]
  by (simp add: example_select) (simp add: example_persona_def new_persona_def)

subsection \<open>Outcome probabilities and the risk score\<close>







subsection \<open>Double rounding\<close>

lemma to_double_zero: "to_double 0 = 0"
  by (simp add: to_double_def)

lemma float_exponent_bounds:
  assumes "0 < x"
  shows "2 powi float_exponent x \<le> x \<and> x < 2 powi (float_exponent x + 1)"
proof (cases "1 \<le> x")
  case True
  let ?n = "\<lfloor>x\<rfloor>"
  from True have n: "0 < ?n" by simp
  from bitlen_bounds[OF n] have b: "2 ^ nat (bitlen ?n - 1) \<le> ?n" "?n < 2 ^ nat (bitlen ?n)"
    by simp_all
  from n have bl: "1 \<le> bitlen ?n"
    using bitlen_eq_zero_iff[of ?n] bitlen_nonneg[of ?n] by linarith
  have e: "float_exponent x = bitlen ?n - 1" using True by (simp add: float_exponent_def)
  have "(2::real) powi (bitlen ?n - 1) = 2 ^ nat (bitlen ?n - 1)"
    using bl by (simp add: power_int_def)
  also have "\<dots> = of_int (2 ^ nat (bitlen ?n - 1))" by simp
  also have "\<dots> \<le> of_int ?n" using b(1) by (simp only: of_int_le_iff)
  also have "\<dots> \<le> x" by simp
  finally have lo: "2 powi float_exponent x \<le> x" by (simp add: e)
  have "x < of_int (?n + 1)" by linarith
  also have "\<dots> \<le> of_int (2 ^ nat (bitlen ?n))" using b(2) by (simp only: of_int_le_iff)
  also have "\<dots> = (2::real) ^ nat (bitlen ?n)" by simp
  also have "\<dots> = 2 powi (bitlen ?n)" using bl by (simp add: power_int_def)
  finally have "x < 2 powi (float_exponent x + 1)" by (simp add: e)
  with lo show ?thesis by simp
next
  case False
  let ?y = "1 / x"
  let ?n = "\<lfloor>?y\<rfloor>"
  let ?k = "bitlen ?n - 1"
  from False assms have y1: "1 < ?y" by simp
  then have n: "0 < ?n" by simp
  from bitlen_bounds[OF n] have b: "2 ^ nat ?k \<le> ?n" "?n < 2 ^ nat (bitlen ?n)"
    by simp_all
  from n have bl: "1 \<le> bitlen ?n"
    using bitlen_eq_zero_iff[of ?n] bitlen_nonneg[of ?n] by linarith
  have pk: "(2::real) powi ?k = 2 ^ nat ?k" using bl by (simp add: power_int_def)
  have "(2::real) ^ nat ?k = of_int (2 ^ nat ?k)" by simp
  also have "\<dots> \<le> of_int ?n" using b(1) by (simp only: of_int_le_iff)
  also have "\<dots> \<le> ?y" by simp
  finally have ylo: "2 powi ?k \<le> ?y" by (simp add: pk)
  have "?y < of_int (?n + 1)" by linarith
  also have "\<dots> \<le> of_int (2 ^ nat (bitlen ?n))" using b(2) by (simp only: of_int_le_iff)
  also have "\<dots> = (2::real) ^ nat (bitlen ?n)" by simp
  also have "\<dots> = 2 powi (?k + 1)" using bl by (simp add: power_int_def)
  finally have yhi: "?y < 2 powi (?k + 1)" .
  have pos: "0 < (2::real) powi j" for j by (simp add: power_int_def)
  from ylo assms have xhi: "x * 2 powi ?k \<le> 1"
    by (simp add: field_simps)
  from yhi assms have xlo: "1 < x * 2 powi (?k + 1)"
    by (simp add: field_simps)
  have m1: "(2::real) powi (- ?k - 1) * 2 powi (?k + 1) = 1"
    by (simp add: power_int_add[symmetric])
  have m0: "(2::real) powi (- ?k) * 2 powi ?k = 1"
    by (simp add: power_int_add[symmetric])
  show ?thesis
  proof (cases "x * 2 powi ?k = 1")
    case True
    then have e: "float_exponent x = - ?k" using False by (simp add: float_exponent_def Let_def)
    from True m0 pos[of ?k] have x: "x = 2 powi (- ?k)"
      by (metis mult_cancel_right less_irrefl)
    have "2 powi (- ?k + 1) = (2::real) powi (- ?k) * 2"
      by (rule power_int_add_1) simp
    with x assms show ?thesis by (simp add: e)
  next
    case ne: False
    then have e: "float_exponent x = - ?k - 1" using False by (simp add: float_exponent_def Let_def)
    from xlo m1 pos[of "?k + 1"] have lo: "2 powi (- ?k - 1) < x"
      by (metis mult_less_cancel_right_pos)
    from xhi ne have "x * 2 powi ?k < 1" by simp
    with m0 pos[of ?k] have hi: "x < 2 powi (- ?k)"
      by (metis mult_less_cancel_right_pos)
    from lo hi show ?thesis by (simp add: e)
  qed
qed

lemma round_half_even_nonneg: "0 \<le> x \<Longrightarrow> 0 \<le> round_half_even x"
proof -
  assume "0 \<le> x"
  then have "0 \<le> \<lfloor>x\<rfloor>" by simp
  then show ?thesis by (simp add: round_half_even_def Let_def)
qed

lemma round_half_even_le: "x \<le> real_of_int n \<Longrightarrow> round_half_even x \<le> n"
proof -
  assume a: "x \<le> real_of_int n"
  then have f: "\<lfloor>x\<rfloor> \<le> n" by (simp add: floor_le_iff)
  show ?thesis
  proof (cases "\<lfloor>x\<rfloor> = n")
    case True
    with a have "x - of_int \<lfloor>x\<rfloor> \<le> 0" by simp
    then show ?thesis using True by (simp add: round_half_even_def Let_def)
  next
    case False
    with f have "\<lfloor>x\<rfloor> + 1 \<le> n" by simp
    then show ?thesis using f by (auto simp: round_half_even_def Let_def)
  qed
qed

lemma to_double_nonneg: "0 \<le> x \<Longrightarrow> 0 \<le> to_double x"
  by (auto simp: to_double_def Let_def intro!: mult_nonneg_nonneg round_half_even_nonneg
           divide_nonneg_nonneg simp: power_int_def)

lemma to_double_one: "to_double 1 = 1"
  by (simp add: to_double_def float_exponent_def round_half_even_def compute_bitlen Let_def)

lemma to_double_le_one:
  assumes "0 \<le> x" "x \<le> 1"
  shows "to_double x \<le> 1"
proof -
  consider "x = 0" | "x = 1" | "0 < x" "x < 1" using assms by fastforce
  then show ?thesis
  proof cases
    case 1
    then show ?thesis by (simp add: to_double_def)
  next
    case 2
    then show ?thesis by (simp add: to_double_one)
  next
    case 3
    let ?e = "float_exponent x"
    let ?ulp = "(2::real) powi (?e - 52)"
    from float_exponent_bounds[OF 3(1)] have lo: "2 powi ?e \<le> x" and hi: "x < 2 powi (?e + 1)"
      by simp_all
    have up: "0 < ?ulp" by (simp add: power_int_def)
    from lo 3(2) have "(2::real) powi ?e < 2 powi 0" by simp
    then have "?e < 0" by (rule power_int_le_imp_less_exp[rotated]) simp_all
    then have e1: "?e + 1 \<le> 0" by simp
    have "x / ?ulp \<le> 2 powi (?e + 1) / ?ulp" using hi up by (simp add: divide_right_mono)
    also have "\<dots> = 2 powi 53" by (simp add: power_int_diff[symmetric])
    also have "\<dots> = real_of_int (2 ^ 53)" by simp
    finally have "round_half_even (x / ?ulp) \<le> 2 ^ 53" by (rule round_half_even_le)
    then have "real_of_int (round_half_even (x / ?ulp)) \<le> real_of_int (2 ^ 53)"
      by (simp only: of_int_le_iff)
    then have "real_of_int (round_half_even (x / ?ulp)) * ?ulp \<le> real_of_int (2 ^ 53) * ?ulp"
      using up by (simp add: mult_right_mono)
    also have "real_of_int (2 ^ 53) * ?ulp = 2 powi (?e + 1)"
      using power_int_add[of "2::real" 53 "?e - 52"] by (simp add: add.commute)
    also have "\<dots> \<le> 2 powi 0" using e1 by (intro power_int_increasing) simp_all
    finally show ?thesis using 3(1) by (simp add: to_double_def Let_def)
  qed
qed

text \<open>The rounding error is at most half a unit in the last place.\<close>

lemma round_half_even_near: "\<bar>real_of_int (round_half_even y) - y\<bar> \<le> 1 / 2"
proof -
  have "real_of_int \<lfloor>y\<rfloor> \<le> y" "y < real_of_int \<lfloor>y\<rfloor> + 1" by linarith+
  then show ?thesis
    by (auto simp: round_half_even_def Let_def)
qed

lemma to_double_error: "\<bar>to_double x - x\<bar> \<le> \<bar>x\<bar> / 2 ^ 53"
proof (cases "x = 0")
  case True
  then show ?thesis by (simp add: to_double_def)
next
  case False
  let ?e = "float_exponent \<bar>x\<bar>"
  let ?ulp = "(2::real) powi (?e - 52)"
  from False have "0 < \<bar>x\<bar>" by simp
  from float_exponent_bounds[OF this] have lo: "2 powi ?e \<le> \<bar>x\<bar>" by simp
  have up: "0 < ?ulp" by (simp add: power_int_def)
  have td: "to_double x = real_of_int (round_half_even (x / ?ulp)) * ?ulp"
    using False by (simp add: to_double_def Let_def)
  have "to_double x - x = (real_of_int (round_half_even (x / ?ulp)) - x / ?ulp) * ?ulp"
    using up by (simp add: td field_simps)
  then have "\<bar>to_double x - x\<bar> = \<bar>real_of_int (round_half_even (x / ?ulp)) - x / ?ulp\<bar> * ?ulp"
    using up by (simp add: abs_mult)
  also have "\<dots> \<le> 1 / 2 * ?ulp"
    using round_half_even_near[of "x / ?ulp"] up by (intro mult_right_mono) simp_all
  also have "1 / 2 * ?ulp = 2 powi ?e / 2 ^ 53"
    using power_int_diff[of "2::real" ?e 52] by simp
  also have "\<dots> \<le> \<bar>x\<bar> / 2 ^ 53" using lo by (simp add: divide_right_mono)
  finally show ?thesis .
qed

lemmas double_eval =
  to_double_def float_exponent_def round_half_even_def compute_bitlen Let_def

lemma double_three_tenths: "to_double 0.3 = 5404319552844595 / 18014398509481984"
  by (simp add: double_eval)

subsection \<open>The risk score\<close>

lemma py_int_nonneg: "0 \<le> x \<Longrightarrow> 0 \<le> py_int x"
  by (simp add: py_int_def)

lemma py_int_truncates:
  "\<bar>real_of_int (py_int x)\<bar> \<le> \<bar>x\<bar> \<and> \<bar>x - real_of_int (py_int x)\<bar> < 1"
proof (cases "0 \<le> x")
  case True
  then have "py_int x = \<lfloor>x\<rfloor>" by (simp add: py_int_def)
  moreover from True have "0 \<le> \<lfloor>x\<rfloor>" by simp
  ultimately show ?thesis using True by simp linarith
next
  case False
  then have "py_int x = \<lceil>x\<rceil>" by (simp add: py_int_def)
  moreover from False have "\<lceil>x\<rceil> \<le> 0" by (simp add: ceiling_le_iff)
  ultimately show ?thesis using False by simp linarith
qed

lemma risk_formula:
  "risk_score_of objs rate =
     min (py_int (to_double
            (real_of_int ((if initial_access objs then 20 else 0)
                        + (if persistence objs then 25 else 0)
                        + (if data_theft objs then 30 else 0)
                        + (if lateral_movement objs then 25 else 0))
             * to_double (1 - to_double (rate * to_double 0.3)))))
         100"
  by (simp add: risk_score_of_def Let_def)

lemma risk_score_steps:
  assumes "(if initial_access objs then 20 else 0) + (if persistence objs then 25 else 0)
           + (if data_theft objs then 30 else 0) + (if lateral_movement objs then 25 else 0)
           = (pts::int)"
    and "to_double (rate * to_double 0.3) = p"
    and "to_double (1 - p) = q"
    and "to_double (real_of_int pts * q) = r"
  shows "risk_score_of objs rate = min (py_int r) 100"
  unfolding risk_formula assms(1) assms(2) assms(3) assms(4) by (rule refl)

lemma discount_range:
  assumes "0 \<le> rate" "rate \<le> 1"
  shows "0 \<le> to_double (1 - to_double (rate * to_double 0.3))"
proof -
  have d: "0 \<le> to_double 0.3" "to_double 0.3 \<le> 1"
    by (simp_all add: to_double_nonneg to_double_le_one)
  from assms d have "0 \<le> rate * to_double 0.3" "rate * to_double 0.3 \<le> 1"
    by (simp_all add: mult_le_one)
  then have "to_double (rate * to_double 0.3) \<le> 1"
    by (rule to_double_le_one)
  then show ?thesis
    by (intro to_double_nonneg) simp
qed

lemma risk_range:
  assumes "0 \<le> rate" "rate \<le> 1"
  shows "0 \<le> risk_score_of objs rate \<and> risk_score_of objs rate \<le> 100"
proof -
  let ?pts = "(if initial_access objs then 20 else 0)
            + (if persistence objs then 25 else 0)
            + (if data_theft objs then 30 else 0)
            + (if lateral_movement objs then (25::int) else 0)"
  have "0 \<le> ?pts" by simp
  then have "0 \<le> real_of_int ?pts * to_double (1 - to_double (rate * to_double 0.3))"
    using discount_range[OF assms] by (intro mult_nonneg_nonneg) simp_all
  then have "0 \<le> py_int (to_double
               (real_of_int ?pts * to_double (1 - to_double (rate * to_double 0.3))))"
    by (intro py_int_nonneg to_double_nonneg)
  then show ?thesis
    unfolding risk_formula by simp
qed

lemma phase_rate_range:
  assumes "k \<le> n"
  shows "0 \<le> phase_rate k n \<and> phase_rate k n \<le> 1"
proof (cases "0 < n")
  case True
  with assms have "0 \<le> real k / real n" "real k / real n \<le> 1" by simp_all
  then show ?thesis
    using True by (simp add: phase_rate_def to_double_nonneg to_double_le_one)
next
  case False
  then show ?thesis by (simp add: phase_rate_def)
qed

lemma campaign_metrics_risk:
  "detection_rate (campaign_metrics c) =
     Some (phase_rate (length (filter entry_detected (phases c))) (length (phases c)))
   \<and> risk_score (campaign_metrics c) =
     Some (risk_score_of
             \<lparr>initial_access = ''initial_access'' \<in> set (objectives_completed c),
              persistence = ''persistence_established'' \<in> set (objectives_completed c),
              data_theft = ''data_exfiltrated'' \<in> set (objectives_completed c),
              lateral_movement = list_ex entry_lateral (phases c)\<rparr>
             (phase_rate (length (filter entry_detected (phases c))) (length (phases c))))"
  by (simp add: campaign_metrics_def Let_def)

lemma campaign_metrics_range:
  "\<exists>r. risk_score (campaign_metrics c) = Some r \<and> 0 \<le> r \<and> r \<le> 100"
proof -
  have "length (filter entry_detected (phases c)) \<le> length (phases c)"
    by (rule length_filter_le)
  from phase_rate_range[OF this] risk_range show ?thesis
    by (simp add: campaign_metrics_risk)
qed

text \<open>
  C4. Finalisation stores as risk score the points of the achieved objectives (initial
  access 20, persistence 25, data theft 30, lateral movement 25), multiplied by
  \<open>1 - detection_rate * 0.3\<close>, truncated towards zero to an integer and capped at 100. The
  detection rate is the number of detected entries of the phase list divided by its length
  (0 for an empty list). The arithmetic is the code's: the quotient, the product with the
  literal 0.3, the difference from 1 and the product with the points are each rounded to
  the nearest double. For every combination of objectives and every rate in [0,1] the
  score lies in [0,100], and so does the score of every finalised campaign. Truncation
  is towards zero: \<open>int\<close> gives an integer no larger in magnitude than its argument and
  less than 1 away from it. Rounding to a double changes a value by at most the fraction
  \<open>2 ^ -53\<close> of its magnitude.
\<close>

theorem risk_score_formula_and_range:
  "detection_rate (campaign_metrics c) =
     Some (phase_rate (length (filter entry_detected (phases c))) (length (phases c)))
   \<and> phase_rate k n = (if 0 < n then to_double (real k / real n) else 0)
   \<and> risk_score (campaign_metrics c) =
     Some (risk_score_of
             \<lparr>initial_access = ''initial_access'' \<in> set (objectives_completed c),
              persistence = ''persistence_established'' \<in> set (objectives_completed c),
              data_theft = ''data_exfiltrated'' \<in> set (objectives_completed c),
              lateral_movement = list_ex entry_lateral (phases c)\<rparr>
             (phase_rate (length (filter entry_detected (phases c))) (length (phases c))))
   \<and> risk_score_of objs rate =
     min (py_int (to_double
            (real_of_int ((if initial_access objs then 20 else 0)
                        + (if persistence objs then 25 else 0)
                        + (if data_theft objs then 30 else 0)
                        + (if lateral_movement objs then 25 else 0))
             * to_double (1 - to_double (rate * to_double 0.3)))))
         100
   \<and> (0 \<le> rate \<and> rate \<le> 1 \<longrightarrow> 0 \<le> risk_score_of objs rate \<and> risk_score_of objs rate \<le> 100)
   \<and> (\<exists>r. risk_score (campaign_metrics c) = Some r \<and> 0 \<le> r \<and> r \<le> 100)
   \<and> \<bar>real_of_int (py_int x)\<bar> \<le> \<bar>x\<bar> \<and> \<bar>x - real_of_int (py_int x)\<bar> < 1
   \<and> \<bar>to_double x - x\<bar> \<le> \<bar>x\<bar> / 2 ^ 53"
proof -
  have "phase_rate k n = (if 0 < n then to_double (real k / real n) else 0)"
    by (simp add: phase_rate_def)
  with campaign_metrics_risk[of c] risk_formula[of objs rate] risk_range[of rate objs]
    campaign_metrics_range[of c] py_int_truncates[of x] to_double_error[of x]
  show ?thesis by blast
qed

lemma example_rate:
  "phase_rate (length (filter entry_detected (phases example_campaign)))
     (length (phases example_campaign)) = 6004799503160661 / 9007199254740992"
  by (simp add: example_campaign_def example_result_def phase_rate_def)
     (simp add: double_eval)

lemma example_objectives:
  "\<lparr>initial_access = ''initial_access'' \<in> set (objectives_completed example_campaign),
    persistence = ''persistence_established'' \<in> set (objectives_completed example_campaign),
    data_theft = ''data_exfiltrated'' \<in> set (objectives_completed example_campaign),
    lateral_movement = list_ex entry_lateral (phases example_campaign)\<rparr>
   = \<lparr>initial_access = True, persistence = False, data_theft = False, lateral_movement = False\<rparr>"
  by (simp add: example_campaign_def example_result_def)

lemma example_risk:
  "risk_score_of
     \<lparr>initial_access = True, persistence = False, data_theft = False, lateral_movement = False\<rparr>
     (6004799503160661 / 9007199254740992) = 16"
proof -
  let ?objs = "\<lparr>initial_access = True, persistence = False, data_theft = False, lateral_movement = False\<rparr>"
  have pts: "(if initial_access ?objs then 20 else 0) + (if persistence ?objs then 25 else 0)
             + (if data_theft ?objs then 30 else 0) + (if lateral_movement ?objs then 25 else 0)
             = (20::int)"
    by simp
  have a: "to_double (6004799503160661 / 9007199254740992 * to_double 0.3)
             = 7205759403792793 / 36028797018963968"
    unfolding double_three_tenths by (simp add: double_eval)
  have b: "to_double (1 - 7205759403792793 / 36028797018963968)
             = 3602879701896397 / 4503599627370496"
    by (simp add: double_eval)
  have c: "to_double (real_of_int 20 * (3602879701896397 / 4503599627370496)) = 16"
    by (simp add: double_eval)
  show ?thesis
    unfolding risk_score_steps[OF pts a b c] by (simp add: py_int_def)
qed

lemma long_rate:
  "phase_rate (length (filter entry_detected (phases long_campaign)))
     (length (phases long_campaign)) = 8807039271302303 / 18014398509481984"
  by (simp add: long_campaign_def example_result_def phase_rate_def)
     (simp add: double_eval)

lemma long_objectives:
  "\<lparr>initial_access = ''initial_access'' \<in> set (objectives_completed long_campaign),
    persistence = ''persistence_established'' \<in> set (objectives_completed long_campaign),
    data_theft = ''data_exfiltrated'' \<in> set (objectives_completed long_campaign),
    lateral_movement = list_ex entry_lateral (phases long_campaign)\<rparr>
   = \<lparr>initial_access = True, persistence = False, data_theft = True, lateral_movement = True\<rparr>"
  by (simp add: long_campaign_def example_result_def)

text \<open>
  75 points at 22 detected phases of 45: the exact product is 64, the double product is
  \<open>64 - 2 ^ -47\<close>, and the score is 63.
\<close>

lemma long_risk:
  "risk_score_of
     \<lparr>initial_access = True, persistence = False, data_theft = True, lateral_movement = True\<rparr>
     (8807039271302303 / 18014398509481984) = 63"
proof -
  let ?objs = "\<lparr>initial_access = True, persistence = False, data_theft = True, lateral_movement = True\<rparr>"
  have pts: "(if initial_access ?objs then 20 else 0) + (if persistence ?objs then 25 else 0)
             + (if data_theft ?objs then 30 else 0) + (if lateral_movement ?objs then 25 else 0)
             = (75::int)"
    by simp
  have a: "to_double (8807039271302303 / 18014398509481984 * to_double 0.3)
             = 2642111781390691 / 18014398509481984"
    unfolding double_three_tenths by (simp add: double_eval)
  have b: "to_double (1 - 2642111781390691 / 18014398509481984)
             = 3843071682022823 / 4503599627370496"
    by (simp add: double_eval)
  have c: "to_double (real_of_int 75 * (3843071682022823 / 4503599627370496))
             = 9007199254740991 / 140737488355328"
    by (simp add: double_eval)
  show ?thesis
    unfolding risk_score_steps[OF pts a b c] by (simp add: py_int_def)
qed

lemma full_risk:
  "risk_score_of
     \<lparr>initial_access = True, persistence = True, data_theft = True, lateral_movement = True\<rparr> 0
   = 100"
proof -
  let ?objs = "\<lparr>initial_access = True, persistence = True, data_theft = True, lateral_movement = True\<rparr>"
  have pts: "(if initial_access ?objs then 20 else 0) + (if persistence ?objs then 25 else 0)
             + (if data_theft ?objs then 30 else 0) + (if lateral_movement ?objs then 25 else 0)
             = (100::int)"
    by simp
  have a: "to_double (0 * to_double 0.3) = 0"
    by (simp add: to_double_zero)
  have b: "to_double (1 - 0) = 1"
    by (simp add: double_eval)
  have c: "to_double (real_of_int 100 * 1) = 100"
    by (simp add: double_eval)
  show ?thesis
    unfolding risk_score_steps[OF pts a b c] by (simp add: py_int_def)
qed

lemma persistence_risk:
  "risk_score_of
     \<lparr>initial_access = False, persistence = True, data_theft = False, lateral_movement = False\<rparr> 1
   = 17"
proof -
  let ?objs = "\<lparr>initial_access = False, persistence = True, data_theft = False, lateral_movement = False\<rparr>"
  have pts: "(if initial_access ?objs then 20 else 0) + (if persistence ?objs then 25 else 0)
             + (if data_theft ?objs then 30 else 0) + (if lateral_movement ?objs then 25 else 0)
             = (25::int)"
    by simp
  have a: "to_double (1 * to_double 0.3) = 5404319552844595 / 18014398509481984"
    unfolding double_three_tenths by (simp add: double_eval)
  have b: "to_double (1 - 5404319552844595 / 18014398509481984)
             = 3152519739159347 / 4503599627370496"
    by (simp add: double_eval)
  have c: "to_double (real_of_int 25 * (3152519739159347 / 4503599627370496)) = 35 / 2"
    by (simp add: double_eval)
  show ?thesis
    unfolding risk_score_steps[OF pts a b c] by (simp add: py_int_def)
qed

theorem risk_score_formula_and_range_witness:
  "detection_rate (campaign_metrics example_campaign)
     = Some (6004799503160661 / 9007199254740992)
   \<and> risk_score (campaign_metrics example_campaign) = Some 16
   \<and> detection_rate (campaign_metrics long_campaign)
     = Some (8807039271302303 / 18014398509481984)
   \<and> risk_score (campaign_metrics long_campaign) = Some 63
   \<and> risk_score_of \<lparr>initial_access = True, persistence = True, data_theft = True,
                     lateral_movement = True\<rparr> 0 = 100
   \<and> 0 \<le> risk_score_of \<lparr>initial_access = False, persistence = True, data_theft = False,
                          lateral_movement = False\<rparr> 1
   \<and> risk_score_of \<lparr>initial_access = False, persistence = True, data_theft = False,
                     lateral_movement = False\<rparr> 1 = 17"
proof -
  note inst1 = risk_score_formula_and_range
    [of example_campaign 0 0
        "\<lparr>initial_access = False, persistence = True, data_theft = False, lateral_movement = False\<rparr>" 1 "35 / 2"]
  note inst2 = risk_score_formula_and_range
    [of long_campaign 0 0
        "\<lparr>initial_access = True, persistence = True, data_theft = True, lateral_movement = True\<rparr>" 0 0]
  from inst1 have "detection_rate (campaign_metrics example_campaign)
                     = Some (6004799503160661 / 9007199254740992)
                   \<and> risk_score (campaign_metrics example_campaign) = Some 16"
    by (simp add: example_rate example_objectives example_risk)
  moreover from inst2 have "detection_rate (campaign_metrics long_campaign)
                     = Some (8807039271302303 / 18014398509481984)
                   \<and> risk_score (campaign_metrics long_campaign) = Some 63"
    by (simp add: long_rate long_objectives long_risk)
  moreover from inst1
  have "0 \<le> risk_score_of \<lparr>initial_access = False, persistence = True, data_theft = False,
                          lateral_movement = False\<rparr> 1"
    by linarith
  ultimately show ?thesis
    by (simp add: full_risk persistence_risk)
qed

subsection \<open>The knowledge-graph store\<close>

lemma parse_loop_relationships:
  "relationships (parse_loop objs c) =
     relationships c @ filter (\<lambda>ob. obj_type ob = Some ''relationship'') objs"
  by (induction objs arbitrary: c) (auto simp: index_object_def Let_def split: option.splits)

lemma parse_loop_by_id:
  "objects_by_id (parse_loop objs c) i = Some t \<Longrightarrow>
   (t \<in> set objs \<and> obj_id t = Some i) \<or> objects_by_id c i = Some t"
proof (induction objs arbitrary: c)
  case Nil
  then show ?case by simp
next
  case (Cons ob objs)
  from Cons.IH[of "index_object ob c"] Cons.prems
  have "(t \<in> set objs \<and> obj_id t = Some i) \<or> objects_by_id (index_object ob c) i = Some t"
    by simp
  then show ?case
    by (auto simp: index_object_def Let_def split: option.splits if_splits)
qed

lemma lookup_parse:
  assumes "lookup_by_id (parse_stix_data objs) r = Some t"
  shows "t \<in> set objs \<and> obj_id t = r"
proof -
  from assms obtain i where r: "r = Some i" and i: "objects_by_id (parse_stix_data objs) i = Some t"
    by (auto simp: lookup_by_id_def split: option.splits)
  from i have "(t \<in> set objs \<and> obj_id t = Some i) \<or>
     objects_by_id \<lparr>objects_by_type = Map.empty, objects_by_id = Map.empty, relationships = []\<rparr> i = Some t"
    unfolding parse_stix_data_def by (rule parse_loop_by_id)
  with r show ?thesis by simp
qed

lemma techniques_loop_sound:
  "t \<in> set (techniques_loop c g rels acc) \<Longrightarrow>
   t \<in> set acc \<or>
   (\<exists>rel \<in> set rels. source_ref rel = Some g \<and> relationship_type rel = Some ''uses'' \<and>
      (\<exists>tgt. lookup_by_id c (target_ref rel) = Some tgt \<and> obj_type tgt = Some ''attack-pattern'' \<and>
             t = attach_external_id (external_references tgt) tgt))"
proof (induction rels arbitrary: acc)
  case Nil
  then show ?case by simp
next
  case (Cons rel rels)
  from Cons.IH[of "techniques_step c g rel acc"] Cons.prems
  have "t \<in> set (techniques_step c g rel acc) \<or>
   (\<exists>rel \<in> set rels. source_ref rel = Some g \<and> relationship_type rel = Some ''uses'' \<and>
      (\<exists>tgt. lookup_by_id c (target_ref rel) = Some tgt \<and> obj_type tgt = Some ''attack-pattern'' \<and>
             t = attach_external_id (external_references tgt) tgt))"
    by simp
  then show ?case
    by (auto simp: techniques_step_def split: if_splits option.splits)
qed

lemma techniques_sound:
  assumes "t \<in> set (get_techniques_for_group (parse_stix_data objs) g)"
  shows "\<exists>rel \<in> set objs. obj_type rel = Some ''relationship'' \<and> source_ref rel = Some g \<and>
           relationship_type rel = Some ''uses'' \<and>
           (\<exists>tgt \<in> set objs. obj_id tgt = target_ref rel \<and> obj_type tgt = Some ''attack-pattern'' \<and>
              t = attach_external_id (external_references tgt) tgt)"
proof -
  have rels: "relationships (parse_stix_data objs) =
                filter (\<lambda>ob. obj_type ob = Some ''relationship'') objs"
    by (simp add: parse_stix_data_def parse_loop_relationships)
  from techniques_loop_sound[of t "parse_stix_data objs" g "relationships (parse_stix_data objs)" "[]"] assms
  obtain rel tgt where rel: "rel \<in> set (relationships (parse_stix_data objs))"
     "source_ref rel = Some g" "relationship_type rel = Some ''uses''"
     and tgt: "lookup_by_id (parse_stix_data objs) (target_ref rel) = Some tgt"
       "obj_type tgt = Some ''attack-pattern''" "t = attach_external_id (external_references tgt) tgt"
    by (auto simp: get_techniques_for_group_def)
  from rel(1) rels have "rel \<in> set objs" "obj_type rel = Some ''relationship''" by auto
  moreover from lookup_parse[OF tgt(1)] have "tgt \<in> set objs" "obj_id tgt = target_ref rel" by auto
  ultimately show ?thesis using rel(2,3) tgt(2,3) by blast
qed

lemma lookup_dangling:
  assumes "\<not> (\<exists>ob \<in> set objs. obj_id ob = r)"
  shows "lookup_by_id (parse_stix_data objs) r = None"
proof (cases "lookup_by_id (parse_stix_data objs) r")
  case None
  then show ?thesis .
next
  case (Some t)
  from lookup_parse[OF Some] assms show ?thesis by blast
qed

lemma step_dangling:
  "lookup_by_id c (target_ref rel) = None \<Longrightarrow> techniques_step c g rel techs = techs"
  by (simp add: techniques_step_def)

lemma loop_drop:
  assumes "\<And>techs. techniques_step c g rel techs = techs"
  shows "techniques_loop c g (filter (\<lambda>r. r \<noteq> rel) rels) acc = techniques_loop c g rels acc"
  using assms by (induction rels arbitrary: acc) auto

lemma techniques_step_index:
  "techniques_step (c\<lparr>relationships := rs\<rparr>) g rel acc = techniques_step c g rel acc"
  by (simp add: techniques_step_def lookup_by_id_def split: option.splits)

lemma techniques_loop_index:
  "techniques_loop (c\<lparr>relationships := rs\<rparr>) g rels acc = techniques_loop c g rels acc"
  by (induction rels arbitrary: acc) (simp_all add: techniques_step_index)

text \<open>
  C5. For every ingested bundle and every group id: each technique returned by
  \<open>get_techniques_for_group\<close> is the copy, with the MITRE id attached, of an object of
  the bundle of type \<open>attack-pattern\<close> whose id is the \<open>target_ref\<close> of a relationship
  object of the bundle with \<open>source_ref\<close> the group id and \<open>relationship_type\<close>
  \<open>uses\<close>. An edge whose target no object of the bundle has as its id is looked up
  without result: its round of the loop leaves the list as it is, and the answer is the
  same as with the edge taken out of the relationship index. The function has no failing
  branch.
\<close>

theorem get_techniques_for_group_sound:
  "(\<forall>t \<in> set (get_techniques_for_group (parse_stix_data objs) g).
      \<exists>rel \<in> set objs.
        obj_type rel = Some ''relationship'' \<and> source_ref rel = Some g \<and>
        relationship_type rel = Some ''uses'' \<and>
        (\<exists>tgt \<in> set objs. obj_id tgt = target_ref rel \<and> obj_type tgt = Some ''attack-pattern'' \<and>
           t = attach_external_id (external_references tgt) tgt))
   \<and> (\<not> (\<exists>ob \<in> set objs. obj_id ob = target_ref rel) \<longrightarrow>
        lookup_by_id (parse_stix_data objs) (target_ref rel) = None
        \<and> techniques_step (parse_stix_data objs) g rel techs = techs
        \<and> get_techniques_for_group
            ((parse_stix_data objs)
               \<lparr>relationships := filter (\<lambda>r. r \<noteq> rel) (relationships (parse_stix_data objs))\<rparr>) g
          = get_techniques_for_group (parse_stix_data objs) g)"
proof (intro conjI ballI impI)
  fix t assume "t \<in> set (get_techniques_for_group (parse_stix_data objs) g)"
  then show "\<exists>rel \<in> set objs.
        obj_type rel = Some ''relationship'' \<and> source_ref rel = Some g \<and>
        relationship_type rel = Some ''uses'' \<and>
        (\<exists>tgt \<in> set objs. obj_id tgt = target_ref rel \<and> obj_type tgt = Some ''attack-pattern'' \<and>
           t = attach_external_id (external_references tgt) tgt)"
    by (rule techniques_sound)
next
  assume d: "\<not> (\<exists>ob \<in> set objs. obj_id ob = target_ref rel)"
  then show none: "lookup_by_id (parse_stix_data objs) (target_ref rel) = None"
    by (rule lookup_dangling)
  then show "techniques_step (parse_stix_data objs) g rel techs = techs"
    by (rule step_dangling)
  from none have "\<And>techs. techniques_step (parse_stix_data objs) g rel techs = techs"
    by (rule step_dangling)
  then show "get_techniques_for_group
            ((parse_stix_data objs)
               \<lparr>relationships := filter (\<lambda>r. r \<noteq> rel) (relationships (parse_stix_data objs))\<rparr>) g
          = get_techniques_for_group (parse_stix_data objs) g"
    by (simp add: get_techniques_for_group_def techniques_loop_index loop_drop)
qed

lemma example_parse:
  "parse_stix_data example_bundle =
     \<lparr>objects_by_type =
        [Some ''intrusion-set'' \<mapsto> [example_group],
         Some ''attack-pattern'' \<mapsto> [example_attack_pattern],
         Some ''tool'' \<mapsto> [example_tool],
         Some ''relationship'' \<mapsto>
           [example_edge ''relationship--1'' ''attack-pattern--1'',
            example_edge ''relationship--2'' ''tool--1'',
            example_edge ''relationship--3'' ''attack-pattern--missing'']],
      objects_by_id =
        [''intrusion-set--1'' \<mapsto> example_group,
         ''attack-pattern--1'' \<mapsto> example_attack_pattern,
         ''tool--1'' \<mapsto> example_tool,
         ''relationship--1'' \<mapsto> example_edge ''relationship--1'' ''attack-pattern--1'',
         ''relationship--2'' \<mapsto> example_edge ''relationship--2'' ''tool--1'',
         ''relationship--3'' \<mapsto> example_edge ''relationship--3'' ''attack-pattern--missing''],
      relationships =
        [example_edge ''relationship--1'' ''attack-pattern--1'',
         example_edge ''relationship--2'' ''tool--1'',
         example_edge ''relationship--3'' ''attack-pattern--missing'']\<rparr>"
  by (simp add: parse_stix_data_def example_bundle_def index_object_def Let_def
        example_group_def example_attack_pattern_def example_tool_def example_edge_def)

lemma example_techniques:
  "get_techniques_for_group (parse_stix_data example_bundle) ''intrusion-set--1'' = [example_technique]"
  unfolding example_parse
  by (simp add: get_techniques_for_group_def techniques_step_def lookup_by_id_def
        example_edge_def example_technique_def)
     (simp add: example_attack_pattern_def example_tool_def)

theorem get_techniques_for_group_sound_witness:
  "get_techniques_for_group (parse_stix_data example_bundle) ''intrusion-set--1'' = [example_technique]
   \<and> example_edge ''relationship--3'' ''attack-pattern--missing'' \<in> set example_bundle
   \<and> lookup_by_id (parse_stix_data example_bundle)
        (target_ref (example_edge ''relationship--3'' ''attack-pattern--missing'')) = None
   \<and> get_techniques_for_group
        ((parse_stix_data example_bundle)
           \<lparr>relationships :=
              filter (\<lambda>r. r \<noteq> example_edge ''relationship--3'' ''attack-pattern--missing'')
                (relationships (parse_stix_data example_bundle))\<rparr>) ''intrusion-set--1''
      = [example_technique]"
proof -
  have d: "\<not> (\<exists>ob \<in> set example_bundle.
               obj_id ob = target_ref (example_edge ''relationship--3'' ''attack-pattern--missing''))"
    by (simp add: example_bundle_def example_group_def example_attack_pattern_def
          example_tool_def example_edge_def)
  have m: "example_edge ''relationship--3'' ''attack-pattern--missing'' \<in> set example_bundle"
    by (simp add: example_bundle_def)
  from get_techniques_for_group_sound
    [of example_bundle "''intrusion-set--1''"
        "example_edge ''relationship--3'' ''attack-pattern--missing''" "[]"] d m
  show ?thesis
    by (simp add: example_techniques)
qed

subsection \<open>The inferred target industries\<close>

lemma industries_loop_eq:
  "industries_loop tbl t acc =
     acc @ map fst (filter (\<lambda>(industry, keywords). \<exists>keyword \<in> set keywords. py_in_str keyword t) tbl)"
  by (induction tbl arbitrary: acc) auto

lemma combined_text_empty: "combined_text [] [] = '' ''"
  by (simp add: combined_text_def py_lower_def lower_char_def)

lemma no_industry_in_blank:
  "industries_loop load_industry_keywords '' '' [] = []"
  by (simp add: load_industry_keywords_def)

text \<open>
  C7, as the claim states it, fails: for an empty description and no aliases no keyword
  of the table matches, and the result is the list of the two industries Technology and
  Government, not a single bucket.
\<close>

theorem infer_target_industries_single_bucket_counterexample:
  "industries_loop load_industry_keywords (combined_text [] []) [] = []
   \<and> infer_target_industries [] [] = [''Technology'', ''Government'']
   \<and> length (infer_target_industries [] []) \<noteq> 1"
  by (simp add: infer_target_industries_def combined_text_empty no_industry_in_blank)

text \<open>
  C7, amended. \<open>_infer_target_industries\<close> has no failing branch. When no keyword of the
  table occurs in the lower-cased description and aliases, it returns the fixed default
  list of two industries, Technology and Government; otherwise it returns the industries
  with a matching keyword, in the order of the table. The result is never empty.
\<close>

theorem infer_target_industries_default:
  "infer_target_industries descr als =
     (if \<forall>(industry, keywords) \<in> set load_industry_keywords.
           \<forall>keyword \<in> set keywords. \<not> py_in_str keyword (combined_text descr als)
      then [''Technology'', ''Government'']
      else map fst (filter (\<lambda>(industry, keywords).
                              \<exists>keyword \<in> set keywords. py_in_str keyword (combined_text descr als))
                      load_industry_keywords))
   \<and> infer_target_industries descr als \<noteq> []"
proof -
  let ?hit = "\<lambda>(industry, keywords). \<exists>keyword \<in> set keywords. py_in_str keyword (combined_text descr als)"
  have e: "(filter ?hit load_industry_keywords = []) =
           (\<forall>(industry, keywords) \<in> set load_industry_keywords.
              \<forall>keyword \<in> set keywords. \<not> py_in_str keyword (combined_text descr als))"
    by (auto simp: filter_empty_conv)
  show ?thesis
    unfolding infer_target_industries_def industries_loop_eq Let_def e[symmetric]
    by simp
qed

lemma banks_text: "combined_text ''Targets banks'' [] = ''targets banks ''"
  by (simp add: combined_text_def py_lower_def lower_char_def)

lemma banks_industries:
  "industries_loop load_industry_keywords ''targets banks '' [] = [''Financial'']"
  by (simp add: load_industry_keywords_def)

theorem infer_target_industries_default_witness:
  "infer_target_industries [] [] = [''Technology'', ''Government'']
   \<and> infer_target_industries ''Targets banks'' [] = [''Financial'']
   \<and> map fst (filter (\<lambda>(industry, keywords).
                        \<exists>keyword \<in> set keywords. py_in_str keyword (combined_text [] []))
                load_industry_keywords) = []"
proof -
  have a: "infer_target_industries [] [] = [''Technology'', ''Government'']"
    by (simp add: infer_target_industries_def combined_text_empty no_industry_in_blank)
  have b: "infer_target_industries ''Targets banks'' [] = [''Financial'']"
    by (simp add: infer_target_industries_def banks_text banks_industries)
  from infer_target_industries_default[of "[]" "[]"] a
  have "map fst (filter (\<lambda>(industry, keywords).
                        \<exists>keyword \<in> set keywords. py_in_str keyword (combined_text [] []))
                load_industry_keywords) = []"
    using no_industry_in_blank[unfolded industries_loop_eq] by (simp add: combined_text_empty)
  with a b show ?thesis by simp
qed

subsection \<open>Campaign execution\<close>

lemma campaign_loop_planned:
  "campaign_loop p tgt False plan c g = Inr (c\<lparr>phases := phases c @ map Planned plan\<rparr>, g)"
  by (induction plan arbitrary: c) simp_all

lemma filter_planned_success: "filter (\<lambda>e. entry_status e = SUCCESS) (map Planned plan) = []"
  by (induction plan) simp_all

lemma filter_planned_detected: "filter entry_detected (map Planned plan) = []"
  by (induction plan) simp_all

lemma list_ex_planned: "\<not> list_ex entry_lateral (map Planned plan)"
  by (induction plan) simp_all

lemma list_all_planned: "list_all (\<lambda>e. entry_status e = PLANNED) (map Planned plan)"
  by (induction plan) simp_all

lemma risk_zero:
  "risk_score_of \<lparr>initial_access = False, persistence = False, data_theft = False,
                  lateral_movement = False\<rparr> 0 = 0"
  by (simp add: risk_score_of_def py_int_def to_double_zero)

text \<open>
  C8. With a persona set and \<open>auto_execute\<close> false, the call returns a campaign, whatever
  the target, the scenario and the random draws. Its phase list is the attack plan, each
  phase wrapped as an entry of status \<open>PLANNED\<close>; the detection events, the techniques
  used and the completed objectives are empty and the exfiltration counter is 0; the
  status is \<open>completed\<close>; and the metrics are those of a list of planned entries: success
  rate 0, detection rate 0, no objective achieved, risk score 0. The campaign is the
  agent's current campaign and the last one of its history.
\<close>

theorem plan_only_campaign:
  assumes "persona self = Some p"
  shows "\<exists>c self' g'.
           execute_attack_campaign self tgt scen h False g = Inr (c, self', g')
           \<and> attack_plan c = fst (generate_persona_attack_plan p scen g)
           \<and> phases c = map Planned (attack_plan c)
           \<and> list_all (\<lambda>e. entry_status e = PLANNED) (phases c)
           \<and> detection_events c = [] \<and> techniques_used c = [] \<and> objectives_completed c = []
           \<and> data_exfiltrated c = 0
           \<and> status c = ''completed''
           \<and> success_rate c = Some 0 \<and> detection_rate c = Some 0 \<and> risk_score c = Some 0
           \<and> objectives_achieved c =
               Some \<lparr>initial_access = False, persistence = False, data_theft = False,
                     lateral_movement = False\<rparr>
           \<and> current_campaign self' = Some c
           \<and> attack_history self' = attack_history self @ [c]"
proof -
  obtain plan g1 where plan: "generate_persona_attack_plan p scen g = (plan, g1)"
    by (cases "generate_persona_attack_plan p scen g")
  show ?thesis
    using assms plan
    by (simp add: execute_attack_campaign_def campaign_loop_planned campaign_metrics_def Let_def
         filter_planned_success filter_planned_detected list_ex_planned list_all_planned
         phase_rate_def to_double_zero risk_zero)
qed

lemma example_plan:
  "generate_persona_attack_plan example_persona ''ransomware'' (\<lambda>n. 0)
     = ([example_plan_phase], \<lambda>n. 0)"
proof -
  have p: "attack_speed example_persona = MODERATE" "stealth_preference example_persona = BALANCED"
    by (simp_all add: example_persona_def new_persona_def)
  show ?thesis
    by (simp add: generate_persona_attack_plan_def example_chain calculate_phase_delay_def
          random_randint_def next_draw_def should_use_stealth_technique_def random_random_def
          get_tactic_priority_def example_plan_phase_def p)
qed

theorem plan_only_campaign_witness:
  "persona example_agent = Some example_persona
   \<and> (\<exists>c self' g'.
         execute_attack_campaign example_agent ''10.0.0.5'' ''ransomware'' 24 False (\<lambda>n. 0)
           = Inr (c, self', g')
         \<and> phases c = [Planned example_plan_phase]
         \<and> detection_events c = [] \<and> techniques_used c = [] \<and> objectives_completed c = []
         \<and> data_exfiltrated c = 0 \<and> status c = ''completed'' \<and> risk_score c = Some 0)"
proof -
  have p: "persona example_agent = Some example_persona"
    by (simp add: example_agent_def)
  from plan_only_campaign[OF p, of "''10.0.0.5''" "''ransomware''" 24 "\<lambda>n. 0"] p
  show ?thesis
    by (auto simp: example_plan)
qed

lemma execute_phase_None:
  "pl_technique_id phase = None \<Longrightarrow> execute_phase p phase tgt c g = Inl TypeError"
  by (simp add: execute_phase_def generate_indicators_def Let_def split: prod.splits)

lemma execute_phase_Some:
  "pl_technique_id phase \<noteq> None \<Longrightarrow> \<exists>r c' g'. execute_phase p phase tgt c g = Inr (r, c', g')"
  by (auto simp: execute_phase_def generate_indicators_def Let_def split: prod.splits)

lemma default_id_ok: "external_id t \<noteq> Some None \<Longrightarrow> get_external_id_default t \<noteq> None"
  by (auto simp: get_external_id_default_def split: option.splits)

lemma alt_ok:
  assumes "ids_are_strings p" "get_alternative_technique p phase g = (Some alt, g')"
  shows "pl_technique_id alt \<noteq> None"
proof -
  from assms(2) obtain t g1
    where sel: "select_technique_for_tactic p (pl_tactic phase) (Some [pl_technique_id phase]) g
                  = (Some t, g1)"
    and alt: "pl_technique_id alt = get_external_id_default t"
    by (auto simp: get_alternative_technique_def split: prod.splits option.splits)
  from select_Some[OF sel] assms(1) have "external_id t \<noteq> Some None"
    by (auto simp: ids_are_strings_def list_all_iff)
  with alt show ?thesis by (simp add: default_id_ok)
qed

lemma campaign_loop_ok:
  assumes "ids_are_strings p" "list_all (\<lambda>ph. pl_technique_id ph \<noteq> None) plan"
  shows "\<exists>c' g'. campaign_loop p tgt auto_execute plan c g = Inr (c', g')"
  using assms(2)
proof (induction plan arbitrary: c g)
  case Nil
  then show ?case by simp
next
  case (Cons phase rest)
  then have ih: "\<And>c g. \<exists>c' g'. campaign_loop p tgt auto_execute rest c g = Inr (c', g')"
    and ph: "pl_technique_id phase \<noteq> None" by simp_all
  show ?case
  proof (cases auto_execute)
    case False
    with ih show ?thesis by simp
  next
    case True
    from execute_phase_Some[OF ph] obtain r c1 g1
      where e1: "execute_phase p phase tgt c g = Inr (r, c1, g1)"
      by blast
    show ?thesis
    proof (cases "pr_status r \<in> set [BLOCKED, FAILED]")
      case False
      with True e1 ih show ?thesis by (simp add: Let_def)
    next
      case bf: True
      obtain s g2 where st: "should_use_stealth_technique p g1 = (s, g2)"
        by (cases "should_use_stealth_technique p g1")
      show ?thesis
      proof (cases s)
        case False
        with True e1 bf st ih show ?thesis by (simp add: Let_def)
      next
        case s: True
        obtain a g3 where alt: "get_alternative_technique p phase g2 = (a, g3)"
          by (cases "get_alternative_technique p phase g2")
        show ?thesis
        proof (cases a)
          case None
          with True e1 bf st s alt ih show ?thesis by (simp add: Let_def)
        next
          case (Some alt_phase)
          from alt_ok[OF assms(1)] alt Some have "pl_technique_id alt_phase \<noteq> None" by simp
          from execute_phase_Some[OF this] obtain r2 c3 g4
            where e2: "execute_phase p alt_phase tgt (c1\<lparr>phases := phases c1 @ [Executed r]\<rparr>) g3
                         = Inr (r2, c3, g4)"
            by blast
          with True e1 bf st s alt Some ih show ?thesis by (simp add: Let_def)
        qed
      qed
    qed
  qed
qed

lemma chain_loop_ids:
  assumes "ids_are_strings p" "list_all (\<lambda>e. ce_technique_id e \<noteq> None) chain"
  shows "list_all (\<lambda>e. ce_technique_id e \<noteq> None) (fst (chain_loop p tacs chain g))"
  using assms(2)
proof (induction tacs arbitrary: chain g)
  case Nil
  then show ?case by simp
next
  case (Cons tac rest)
  show ?case
  proof (cases "tac \<in> set (tactics p)")
    case False
    with Cons show ?thesis by simp
  next
    case True
    obtain r g' where sel: "select_technique_for_tactic p tac None g = (r, g')"
      by (cases "select_technique_for_tactic p tac None g")
    show ?thesis
    proof (cases r)
      case None
      with Cons True sel show ?thesis by simp
    next
      case (Some t)
      from select_Some[of p tac None g t g'] sel Some assms(1)
      have "external_id t \<noteq> Some None" by (auto simp: ids_are_strings_def list_all_iff)
      then have "get_external_id_default t \<noteq> None" by (rule default_id_ok)
      with Cons True sel Some show ?thesis by simp
    qed
  qed
qed

lemma plan_loop_ids:
  "list_all (\<lambda>e. ce_technique_id e \<noteq> None) chain \<Longrightarrow>
   list_all (\<lambda>ph. pl_technique_id ph \<noteq> None) plan \<Longrightarrow>
   list_all (\<lambda>ph. pl_technique_id ph \<noteq> None) (fst (plan_loop p chain plan g))"
  by (induction chain arbitrary: plan g) (auto split: prod.splits)

text \<open>
  Without a persona the call raises ValueError. With a persona whose techniques all have a
  string as id, or no id key, it returns a completed campaign for every scenario, either
  value of \<open>auto_execute\<close> and every sequence of random draws: a tactic without technique
  is skipped and a missing alternative is passed over.
\<close>

lemma campaign_without_persona:
  "persona self = None \<Longrightarrow> execute_attack_campaign self tgt scen h auto_execute g = Inl ValueError"
  by (simp add: execute_attack_campaign_def)

lemma campaign_completes_with_string_ids:
  assumes "persona self = Some p" "ids_are_strings p"
  shows "\<exists>c self' g'. execute_attack_campaign self tgt scen h auto_execute g = Inr (c, self', g')
           \<and> status c = ''completed''"
proof -
  obtain plan g1 where plan: "generate_persona_attack_plan p scen g = (plan, g1)"
    by (cases "generate_persona_attack_plan p scen g")
  obtain chain g0 where chain: "get_attack_chain p scen g = (chain, g0)"
    by (cases "get_attack_chain p scen g")
  from chain_loop_ids[OF assms(2), of "[]" "tactic_order p scen" g] chain
  have "list_all (\<lambda>e. ce_technique_id e \<noteq> None) chain"
    by (simp add: get_attack_chain_def)
  from plan_loop_ids[OF this, of "[]" p g0] plan chain
  have "list_all (\<lambda>ph. pl_technique_id ph \<noteq> None) plan"
    by (simp add: generate_persona_attack_plan_def)
  from campaign_loop_ok[OF assms(2) this] obtain c' g' where
    "campaign_loop p tgt auto_execute plan
       (\<lparr>target = tgt, scenario = scen, max_duration_hours = h,
         status = ''active'', phases = [], techniques_used = [],
         objectives_completed = [], detection_events = [], data_exfiltrated = 0,
         attack_plan = [], success_rate = None, detection_rate = None,
         objectives_achieved = None, risk_score = None\<rparr>\<lparr>attack_plan := plan\<rparr>) g1 = Inr (c', g')"
    by blast
  with assms(1) plan show ?thesis
    by (simp add: execute_attack_campaign_def Let_def campaign_metrics_def)
qed

lemma no_id_parse:
  "parse_stix_data no_id_bundle =
     \<lparr>objects_by_type =
        [Some ''intrusion-set'' \<mapsto> [example_group],
         Some ''attack-pattern'' \<mapsto>
           [example_attack_pattern
              \<lparr>external_references := [\<lparr>source_name = Some ''mitre-attack'', ref_external_id = None\<rparr>]\<rparr>],
         Some ''relationship'' \<mapsto> [example_edge ''relationship--1'' ''attack-pattern--1'']],
      objects_by_id =
        [''intrusion-set--1'' \<mapsto> example_group,
         ''attack-pattern--1'' \<mapsto>
           example_attack_pattern
             \<lparr>external_references := [\<lparr>source_name = Some ''mitre-attack'', ref_external_id = None\<rparr>]\<rparr>,
         ''relationship--1'' \<mapsto> example_edge ''relationship--1'' ''attack-pattern--1''],
      relationships = [example_edge ''relationship--1'' ''attack-pattern--1'']\<rparr>"
  by (simp add: parse_stix_data_def no_id_bundle_def index_object_def Let_def
        example_group_def example_attack_pattern_def example_edge_def)

lemma no_id_techniques:
  "get_techniques_for_group (parse_stix_data no_id_bundle) ''intrusion-set--1'' = [no_id_technique]"
  unfolding no_id_parse
  by (simp add: get_techniques_for_group_def techniques_step_def lookup_by_id_def
        example_edge_def no_id_technique_def)
     (simp add: example_attack_pattern_def)

lemma no_id_software:
  "get_software_for_group (parse_stix_data no_id_bundle) ''intrusion-set--1'' = []"
  unfolding no_id_parse
  by (simp add: get_software_for_group_def software_step_def lookup_by_id_def example_edge_def)
     (simp add: example_attack_pattern_def)

lemma no_id_group:
  "get_group_by_name (parse_stix_data no_id_bundle) ''Example Group'' = Some example_group"
  unfolding no_id_parse
  by (simp add: get_group_by_name_def get_name_default_def example_group_def)

lemma no_id_from_mitre_data:
  "from_mitre_data (parse_stix_data no_id_bundle) ''Example Group'' None = Inr no_id_persona"
  unfolding from_mitre_data_def no_id_group
  by (simp add: example_group_def no_id_techniques no_id_software)
     (simp add: no_id_technique_def example_attack_pattern_def tactic_to_attr_def
        set_preferred_def techniques_of_tactic_def preferred_id_def get_description_default_def
        no_id_persona_def new_persona_def)

lemma no_id_chain:
  "get_attack_chain no_id_persona ''full_chain'' g =
     ([\<lparr>ce_tactic = ''initial-access'', ce_technique_id = None,
        ce_technique_name = ''Spearphishing Link'', ce_description = ''Send a link...''\<rparr>], g)"
  by (simp add: get_attack_chain_def tactic_order_def no_id_persona_def new_persona_def
        select_technique_for_tactic_def no_id_technique_def example_attack_pattern_def
        get_external_id_def get_external_id_default_def get_name_default_def
        get_description_default_def)

lemma no_id_plan:
  "\<exists>ph g'. generate_persona_attack_plan no_id_persona ''full_chain'' g = ([ph], g')
           \<and> pl_technique_id ph = None"
  by (simp add: generate_persona_attack_plan_def no_id_chain split: prod.splits)

text \<open>
  C6. The claim says that the call raises exactly when no persona is set. The code raises
  with a persona set: the bundle \<open>no_id_bundle\<close> has a technique whose reference of source
  \<open>mitre-attack\<close> carries no \<open>external_id\<close>; \<open>from_mitre_data\<close> builds from it a persona
  whose technique has the id \<open>None\<close>; and \<open>execute_attack_campaign\<close> for that persona with
  \<open>auto_execute\<close> true ends in TypeError in the first phase, when \<open>_generate_indicators\<close>
  tests \<open>'T1566' in technique_id\<close>, for every target, duration and sequence of random
  draws.
\<close>

theorem execute_attack_campaign_type_error:
  "from_mitre_data (parse_stix_data no_id_bundle) ''Example Group'' None = Inr no_id_persona
   \<and> execute_attack_campaign
       \<lparr>mitre_client = parse_stix_data no_id_bundle, persona = Some no_id_persona,
        attack_history = [], current_campaign = None\<rparr>
       tgt ''full_chain'' h True g = Inl TypeError"
proof -
  obtain ph g' where plan: "generate_persona_attack_plan no_id_persona ''full_chain'' g = ([ph], g')"
    and ph: "pl_technique_id ph = None"
    using no_id_plan by blast
  have "execute_attack_campaign
       \<lparr>mitre_client = parse_stix_data no_id_bundle, persona = Some no_id_persona,
        attack_history = [], current_campaign = None\<rparr>
       tgt ''full_chain'' h True g = Inl TypeError"
    by (simp add: execute_attack_campaign_def plan execute_phase_None[OF ph] Let_def)
  with no_id_from_mitre_data show ?thesis by simp
qed

subsection \<open>The persona cache\<close>

lemma stored_get: "stored_as self nm r \<Longrightarrow> get_persona self st nm = Inr (r, self, st)"
  by (auto simp: stored_as_def get_persona_def split: option.splits)

lemma get_stores:
  assumes "personas_cache self \<noteq> None" "get_persona self st nm = Inr (r, self1, st1)"
  shows "stored_as self1 nm r"
  using assms
  by (auto simp: stored_as_def get_persona_def split: option.splits sum.splits)

lemma get_keeps:
  assumes "stored_as self nm r" "get_persona self st n = Inr (r', self1, st1)"
  shows "stored_as self1 nm r"
  using assms
  by (auto simp: stored_as_def get_persona_def split: option.splits sum.splits if_splits)

lemma gets_keep:
  "stored_as self nm r \<Longrightarrow> get_personas self st ns = (self2, st2) \<Longrightarrow> stored_as self2 nm r"
proof (induction ns arbitrary: self st)
  case Nil
  then show ?case by simp
next
  case (Cons n ns)
  show ?case
  proof (cases "get_persona self st n")
    case (Inl e)
    with Cons show ?thesis by simp
  next
    case (Inr x)
    obtain r' self1 st1 where x: "x = (r', self1, st1)" by (cases x)
    from get_keeps[OF Cons.prems(1)] Inr x have "stored_as self1 nm r" by simp
    from Cons.IH[OF this] Cons.prems(2) Inr x show ?thesis by simp
  qed
qed

lemma get_fresh:
  assumes "personas_cache self = Some cache" "cache nm = None" "custom_personas self nm = None"
    "get_persona self st nm = Inr (r, self1, st1)"
  shows "r = length st \<and> (\<exists>p. construct_persona self nm = Inr p \<and> st1 = st @ [p])
         \<and> personas_cache self1 = Some (cache(nm \<mapsto> r))"
  using assms by (auto simp: get_persona_def split: sum.splits)

lemma get_after_clear:
  assumes "personas_cache self \<noteq> None" "custom_personas self nm = None"
    "get_persona (clear_cache self) st nm = Inr (r, self1, st1)"
  shows "r = length st \<and> length st1 = Suc (length st)"
  using assms
  by (auto simp: get_persona_def clear_cache_def construct_persona_def
           split: sum.splits option.splits)

text \<open>
  C9. Let the library have a cache, and let a call of \<open>get_persona\<close> for a name return
  the reference \<open>r\<close>. Then the next call for that name returns \<open>r\<close> again and changes
  neither the library nor the store of persona objects: the same instance, nothing
  constructed. The same holds for a later call after any number of calls of \<open>get_persona\<close>
  for any names in between. If the name was neither in the cache nor a custom persona,
  the first call constructed the object, added it to the store as a new instance and
  entered it in the cache under the name. \<open>clear_cache\<close> empties the cache; the next call
  for a name that is not a custom persona then constructs a new instance.
\<close>

theorem get_persona_cached:
  assumes "personas_cache self \<noteq> None"
    and "get_persona self st nm = Inr (r, self1, st1)"
  shows "get_persona self1 st1 nm = Inr (r, self1, st1)
     \<and> (\<forall>ns self2 st2. get_personas self1 st1 ns = (self2, st2) \<longrightarrow>
            get_persona self2 st2 nm = Inr (r, self2, st2))
     \<and> (\<forall>cache. personas_cache self = Some cache \<and> cache nm = None \<and> custom_personas self nm = None \<longrightarrow>
            r = length st \<and> (\<exists>p. construct_persona self nm = Inr p \<and> st1 = st @ [p])
            \<and> personas_cache self1 = Some (cache(nm \<mapsto> r)))
     \<and> personas_cache (clear_cache self1) = Some Map.empty
     \<and> (custom_personas self1 nm = None \<longrightarrow>
          (\<forall>r' self3 st3. get_persona (clear_cache self1) st1 nm = Inr (r', self3, st3) \<longrightarrow>
             r' = length st1 \<and> length st3 = Suc (length st1)))"
proof (intro conjI allI impI)
  from get_stores[OF assms] have s: "stored_as self1 nm r" .
  then show "get_persona self1 st1 nm = Inr (r, self1, st1)"
    by (rule stored_get)
  show "get_persona self2 st2 nm = Inr (r, self2, st2)"
    if "get_personas self1 st1 ns = (self2, st2)" for ns self2 st2
    using gets_keep[OF s that] by (rule stored_get)
  from s have c1: "personas_cache self1 \<noteq> None"
    by (auto simp: stored_as_def split: option.splits)
  then show "personas_cache (clear_cache self1) = Some Map.empty"
    by (auto simp: clear_cache_def split: option.splits)
  show "r' = length st1" and "length st3 = Suc (length st1)"
    if "custom_personas self1 nm = None"
      and "get_persona (clear_cache self1) st1 nm = Inr (r', self3, st3)" for r' self3 st3
    using get_after_clear[OF c1 that] by simp_all
next
  fix cache
  assume c: "personas_cache self = Some cache \<and> cache nm = None \<and> custom_personas self nm = None"
  from get_fresh[of self cache nm st r self1 st1] c assms(2)
  show "r = length st" and "\<exists>p. construct_persona self nm = Inr p \<and> st1 = st @ [p]"
    and "personas_cache self1 = Some (cache(nm \<mapsto> r))"
    by simp_all
qed

lemma example_software:
  "get_software_for_group (parse_stix_data example_bundle) ''intrusion-set--1''
     = [example_tool\<lparr>external_id := Some (Some ''S0154'')\<rparr>]"
  unfolding example_parse
  by (simp add: get_software_for_group_def software_step_def lookup_by_id_def example_edge_def)
     (simp add: example_attack_pattern_def example_tool_def)

lemma example_group_found:
  "get_group_by_name (parse_stix_data example_bundle) ''Example Group'' = Some example_group"
  unfolding example_parse
  by (simp add: get_group_by_name_def get_name_default_def example_group_def)

lemma example_from_mitre_data:
  "from_mitre_data (parse_stix_data example_bundle) ''Example Group'' None = Inr example_persona"
  unfolding from_mitre_data_def example_group_found
  by (simp add: example_group_def example_techniques example_software)
     (simp add: example_technique_def example_attack_pattern_def example_tool_def
        tactic_to_attr_def set_preferred_def techniques_of_tactic_def preferred_id_def
        get_description_default_def example_persona_def new_persona_def)

lemma example_get:
  "get_persona example_library [] ''Example Group'' =
     Inr (0, example_library\<lparr>personas_cache := Some [''Example Group'' \<mapsto> 0]\<rparr>, [example_persona])"
proof -
  have "map_of PERSONA_CONFIGS ''Example Group'' = None"
    by (simp add: PERSONA_CONFIGS_def)
  then have "construct_persona example_library ''Example Group'' = Inr example_persona"
    by (simp add: construct_persona_def example_library_def example_group_found
          example_from_mitre_data)
  then show ?thesis
    by (simp add: get_persona_def) (simp add: example_library_def)
qed

theorem get_persona_cached_witness:
  "personas_cache example_library \<noteq> None
   \<and> get_persona example_library [] ''Example Group'' =
       Inr (0, example_library\<lparr>personas_cache := Some [''Example Group'' \<mapsto> 0]\<rparr>, [example_persona])
   \<and> get_persona (example_library\<lparr>personas_cache := Some [''Example Group'' \<mapsto> 0]\<rparr>)
       [example_persona] ''Example Group'' =
       Inr (0, example_library\<lparr>personas_cache := Some [''Example Group'' \<mapsto> 0]\<rparr>, [example_persona])"
proof -
  have c: "personas_cache example_library \<noteq> None"
    by (simp add: example_library_def)
  from get_persona_cached[OF c example_get] c example_get
  show ?thesis by simp
qed

end
